theory Spec2Isabelle
  imports Main "HOL-Library.Word" "HOL-Library.Sublist"
begin

unbundle bit_operations_syntax

section \<open>JavaScript values\<close>

text \<open>
  Joa.js is dynamically typed: a header attribute, a report field or an argument of an
  add function may hold any value. The model covers the primitive values: \<open>null\<close>,
  \<open>undefined\<close>, booleans, integral numbers and strings. A JavaScript string is taken as a
  \<^typ>\<open>string\<close>, so its code units range over 0..255. A number is an \<^typ>\<open>int\<close> and stands
  for a double holding that integer: the model is meant for magnitudes up to \<open>2 ^ 53\<close>,
  where a double represents every integer exactly and renders it in plain decimal digits
  (the exponent form starts at \<open>10 ^ 21\<close>).
\<close>

datatype jsval = JNull | JUndefined | JBool bool | JNum int | JStr string

text \<open>An object literal is the list of its properties in insertion order.\<close>

type_synonym jsobj = "(string \<times> jsval) list"

text \<open>Errors handed to the callback, and the exceptions a call may throw.\<close>

datatype error =
    no_gatewayidentifier_set
  | no_vendor_attribute_set
  | no_secret_set
  | TypeError
  | ReferenceError

text \<open>\<open>ToBoolean\<close>: what \<open>if(v)\<close>, \<open>!v\<close>, \<open>v || w\<close> and \<open>v && w\<close> test.\<close>

fun truthy :: "jsval \<Rightarrow> bool" where
  "truthy JNull = False"
| "truthy JUndefined = False"
| "truthy (JBool b) = b"
| "truthy (JNum n) = (n \<noteq> 0)"
| "truthy (JStr s) = (s \<noteq> [])"

text \<open>\<open>a || b\<close>\<close>

definition js_or :: "jsval \<Rightarrow> jsval \<Rightarrow> jsval" where
  "js_or a b = (if truthy a then a else b)"

text \<open>\<open>a === b\<close> on primitive values\<close>

definition strict_eq :: "jsval \<Rightarrow> jsval \<Rightarrow> bool" where
  "strict_eq a b = (a = b)"

text \<open>Decimal rendering of an integral number, as \<open>Number.prototype.toString\<close> gives it.\<close>

definition digit_char :: "int \<Rightarrow> char" where
  "digit_char d = char_of (48 + d)"

function digits10 :: "int \<Rightarrow> string" where
  "digits10 n = (if n < 10 then [digit_char n] else digits10 (n div 10) @ [digit_char (n mod 10)])"
  by pat_completeness auto
termination
  by (relation "measure nat") auto

declare digits10.simps [simp del]

definition Number_toString :: "int \<Rightarrow> string" where
  "Number_toString n = (if n < 0 then CHR ''-'' # digits10 (- n) else digits10 n)"

text \<open>\<open>ToString\<close>: what \<open>"" + v\<close> renders.\<close>

fun ToString :: "jsval \<Rightarrow> string" where
  "ToString JNull = ''null''"
| "ToString JUndefined = ''undefined''"
| "ToString (JBool b) = (if b then ''true'' else ''false'')"
| "ToString (JNum n) = Number_toString n"
| "ToString (JStr s) = s"

text \<open>
  \<open>v.length > 0\<close>: reading a property of \<open>null\<close> or \<open>undefined\<close> throws a TypeError; a
  boolean or a number has no \<open>length\<close>, and \<open>undefined > 0\<close> is false.
\<close>

fun length_gt_0 :: "jsval \<Rightarrow> error + bool" where
  "length_gt_0 JNull = Inl TypeError"
| "length_gt_0 JUndefined = Inl TypeError"
| "length_gt_0 (JBool b) = Inr False"
| "length_gt_0 (JNum n) = Inr False"
| "length_gt_0 (JStr s) = Inr (length s > 0)"

text \<open>\<open>Object.keys(o)\<close> and \<open>o[k]\<close>; a missing property reads as \<open>undefined\<close>.\<close>

definition Object_keys :: "jsobj \<Rightarrow> string list" where
  "Object_keys obj = map fst obj"

definition get_prop :: "jsobj \<Rightarrow> string \<Rightarrow> jsval" where
  "get_prop obj k = (case map_of obj k of None \<Rightarrow> JUndefined | Some v \<Rightarrow> v)"

section \<open>Strings\<close>

text \<open>\<open>s.indexOf(pat)\<close>: the position of the first occurrence, or -1.\<close>

fun indexOf_from :: "string \<Rightarrow> string \<Rightarrow> nat \<Rightarrow> int" where
  "indexOf_from [] pat i = (if pat = [] then int i else - 1)"
| "indexOf_from (c # cs) pat i =
     (if prefix pat (c # cs) then int i else indexOf_from cs pat (Suc i))"

definition indexOf :: "string \<Rightarrow> string \<Rightarrow> int" where
  "indexOf s pat = indexOf_from s pat 0"

text \<open>\<open>s.slice(b, e)\<close> and \<open>s.slice(b)\<close>; a negative index counts from the end.\<close>

definition slice :: "string \<Rightarrow> int \<Rightarrow> int \<Rightarrow> string" where
  "slice s b e =
     (let n = int (length s);
          from = (if b < 0 then max (n + b) 0 else min b n);
          to = (if e < 0 then max (n + e) 0 else min e n)
      in take (nat (to - from)) (drop (nat from) s))"

definition slice_from :: "string \<Rightarrow> int \<Rightarrow> string" where
  "slice_from s b = slice s b (int (length s))"

text \<open>\<open>s.substr(start, len)\<close>\<close>

definition substr :: "string \<Rightarrow> int \<Rightarrow> nat \<Rightarrow> string" where
  "substr s start len =
     (let n = int (length s);
          from = (if start < 0 then max (n + start) 0 else min start n)
      in take len (drop (nat from) s))"

text \<open>\<open>Array.prototype.toString\<close> on an array of strings: the elements joined by commas.\<close>

fun Array_toString :: "string list \<Rightarrow> string" where
  "Array_toString [] = []"
| "Array_toString [x] = x"
| "Array_toString (x # y # ys) = x @ '','' @ Array_toString (y # ys)"

section \<open>Hash primitive\<close>

text \<open>
  The inlined \<open>md5\<close> works on JavaScript's 32-bit integers: every value it handles passes
  through a bitwise operator, which reads its operands modulo \<open>2 ^ 32\<close>, so a \<^typ>\<open>32 word\<close>
  holds it. The local functions of \<open>md5\<close> carry its name as a prefix.
\<close>

type_synonym u32 = "32 word"

text \<open>\<open>L(k,d)\<close>: \<open>(k<<d)|(k>>>(32-d))\<close>, called with shift amounts from 4 to 23.\<close>

definition md5_L :: "u32 \<Rightarrow> nat \<Rightarrow> u32" where
  "md5_L k d = push_bit d k OR drop_bit (32 - d) k"

text \<open>\<open>K(G,k)\<close>: the sum of two 32-bit values, computed on their low 30 bits.\<close>

definition md5_K :: "u32 \<Rightarrow> u32 \<Rightarrow> u32" where
  "md5_K G k =
     (let F = G AND 2147483648;
          H = k AND 2147483648;
          I = G AND 1073741824;
          d = k AND 1073741824;
          x = (G AND 1073741823) + (k AND 1073741823)
      in if I AND d \<noteq> 0 then x XOR 2147483648 XOR F XOR H
         else if I OR d \<noteq> 0 then
           (if x AND 1073741824 \<noteq> 0 then x XOR 3221225472 XOR F XOR H
            else x XOR 1073741824 XOR F XOR H)
         else x XOR F XOR H)"

definition md5_r :: "u32 \<Rightarrow> u32 \<Rightarrow> u32 \<Rightarrow> u32" where
  "md5_r d F k = (d AND F) OR (NOT d AND k)"

definition md5_q :: "u32 \<Rightarrow> u32 \<Rightarrow> u32 \<Rightarrow> u32" where
  "md5_q d F k = (d AND k) OR (F AND NOT k)"

definition md5_p :: "u32 \<Rightarrow> u32 \<Rightarrow> u32 \<Rightarrow> u32" where
  "md5_p d F k = d XOR F XOR k"

definition md5_n :: "u32 \<Rightarrow> u32 \<Rightarrow> u32 \<Rightarrow> u32" where
  "md5_n d F k = F XOR (d OR NOT k)"

definition md5_u :: "u32 \<Rightarrow> u32 \<Rightarrow> u32 \<Rightarrow> u32 \<Rightarrow> u32 \<Rightarrow> nat \<Rightarrow> u32 \<Rightarrow> u32" where
  "md5_u G F aa Z k H I =
     (let G = md5_K G (md5_K (md5_K (md5_r F aa Z) k) I) in md5_K (md5_L G H) F)"

definition md5_f :: "u32 \<Rightarrow> u32 \<Rightarrow> u32 \<Rightarrow> u32 \<Rightarrow> u32 \<Rightarrow> nat \<Rightarrow> u32 \<Rightarrow> u32" where
  "md5_f G F aa Z k H I =
     (let G = md5_K G (md5_K (md5_K (md5_q F aa Z) k) I) in md5_K (md5_L G H) F)"

definition md5_D :: "u32 \<Rightarrow> u32 \<Rightarrow> u32 \<Rightarrow> u32 \<Rightarrow> u32 \<Rightarrow> nat \<Rightarrow> u32 \<Rightarrow> u32" where
  "md5_D G F aa Z k H I =
     (let G = md5_K G (md5_K (md5_K (md5_p F aa Z) k) I) in md5_K (md5_L G H) F)"

definition md5_t :: "u32 \<Rightarrow> u32 \<Rightarrow> u32 \<Rightarrow> u32 \<Rightarrow> u32 \<Rightarrow> nat \<Rightarrow> u32 \<Rightarrow> u32" where
  "md5_t G F aa Z k H I =
     (let G = md5_K G (md5_K (md5_K (md5_n F aa Z) k) I) in md5_K (md5_L G H) F)"

text \<open>
  \<open>e(G)\<close>: the bytes of \<open>G\<close> packed into little-endian words, the padding bit and the bit
  length. The array starts with holes, which read as 0 under \<open>|\<close> and \<open>&\<close>. In
  \<open>md5_e_fill\<close> the string is what is left of \<open>G\<close> from position \<open>H\<close> on.
\<close>

fun md5_e_fill :: "string \<Rightarrow> nat \<Rightarrow> u32 list \<Rightarrow> u32 list" where
  "md5_e_fill [] H aa = aa"
| "md5_e_fill (c # cs) H aa =
     (let Z = (H - H mod 4) div 4;
          d = (H mod 4) * 8
      in md5_e_fill cs (Suc H) (aa[Z := (aa ! Z) OR push_bit d (of_char c)]))"

definition md5_e :: "string \<Rightarrow> u32 list" where
  "md5_e G =
     (let F = length G;
          x = F + 8;
          k = (x - x mod 64) div 64;
          I = (k + 1) * 16;
          aa = replicate I 0;
          aa = md5_e_fill G 0 aa;
          H = F;
          Z = (H - H mod 4) div 4;
          d = (H mod 4) * 8;
          aa = aa[Z := (aa ! Z) OR push_bit d 128];
          aa = aa[I - 2 := push_bit 3 (of_nat F)];
          aa = aa[I - 1 := drop_bit 29 (of_nat F)]
      in aa)"

text \<open>\<open>G.toString(16)\<close> for a non-negative integer\<close>

definition hex_char :: "nat \<Rightarrow> char" where
  "hex_char d = (if d < 10 then char_of (48 + d) else char_of (87 + d))"

fun toString16 :: "nat \<Rightarrow> string" where
  "toString16 n = (if n < 16 then [hex_char n] else toString16 (n div 16) @ [hex_char (n mod 16)])"

declare toString16.simps [simp del]

text \<open>\<open>B(x)\<close>: the four bytes of \<open>x\<close>, lowest first, each as two hexadecimal digits.\<close>

definition md5_B_step :: "u32 \<Rightarrow> string \<Rightarrow> nat \<Rightarrow> string" where
  "md5_B_step x k d =
     (let G = drop_bit (d * 8) x AND 255;
          F = ''0'' @ toString16 (unat G)
      in k @ substr F (int (length F) - 2) 2)"

definition md5_B :: "u32 \<Rightarrow> string" where
  "md5_B x = foldl (md5_B_step x) [] [0, 1, 2, 3]"

text \<open>
  \<open>J(k)\<close>: the global replacement of \<open>/rn/\<close> by \<open>n\<close>, then the UTF-8 bytes of every code
  unit.
\<close>

fun replace_rn :: "string \<Rightarrow> string" where
  "replace_rn (a # b # cs) =
     (if a = CHR ''r'' \<and> b = CHR ''n'' then CHR ''n'' # replace_rn cs
      else a # replace_rn (b # cs))"
| "replace_rn cs = cs"

definition md5_J_char :: "nat \<Rightarrow> string" where
  "md5_J_char x =
     (if x < 128 then [char_of x]
      else if x > 127 \<and> x < 2048 then
        [char_of (drop_bit 6 x OR 192), char_of ((x AND 63) OR 128)]
      else
        [char_of (drop_bit 12 x OR 224), char_of ((drop_bit 6 x AND 63) OR 128),
         char_of ((x AND 63) OR 128)])"

definition md5_J :: "string \<Rightarrow> string" where
  "md5_J k = (let k = replace_rn k in concat (map (\<lambda>c. md5_J_char (of_char c)) k))"

text \<open>\<open>C[i]\<close>; a read past the end gives \<open>undefined\<close>, which \<open>K\<close> takes as 0.\<close>

definition C_at :: "u32 list \<Rightarrow> nat \<Rightarrow> u32" where
  "C_at C i = (if i < length C then C ! i else 0)"

text \<open>The body of the loop over the 16-word blocks; \<open>o'\<close> and \<open>O'\<close> stand for the shift amounts \<open>o\<close> and \<open>O\<close>.\<close>

definition md5_block :: "u32 list \<Rightarrow> nat \<Rightarrow> u32 \<times> u32 \<times> u32 \<times> u32 \<Rightarrow> u32 \<times> u32 \<times> u32 \<times> u32" where
  "md5_block C P st =
     (case st of (Y, X, W, V) \<Rightarrow>
      let S = 7; Q = 12; N = 17; M = 22;
          A = 5; z = 9; y = 14; w = 20;
          o' = 4; m = 11; l = 16; j = 23;
          U = 6; T = 10; R = 15; O' = 21;
          h = Y; E = X; v = W; g = V;
          Y = md5_u Y X W V (C_at C (P + 0)) S 3614090360;
          V = md5_u V Y X W (C_at C (P + 1)) Q 3905402710;
          W = md5_u W V Y X (C_at C (P + 2)) N 606105819;
          X = md5_u X W V Y (C_at C (P + 3)) M 3250441966;
          Y = md5_u Y X W V (C_at C (P + 4)) S 4118548399;
          V = md5_u V Y X W (C_at C (P + 5)) Q 1200080426;
          W = md5_u W V Y X (C_at C (P + 6)) N 2821735955;
          X = md5_u X W V Y (C_at C (P + 7)) M 4249261313;
          Y = md5_u Y X W V (C_at C (P + 8)) S 1770035416;
          V = md5_u V Y X W (C_at C (P + 9)) Q 2336552879;
          W = md5_u W V Y X (C_at C (P + 10)) N 4294925233;
          X = md5_u X W V Y (C_at C (P + 11)) M 2304563134;
          Y = md5_u Y X W V (C_at C (P + 12)) S 1804603682;
          V = md5_u V Y X W (C_at C (P + 13)) Q 4254626195;
          W = md5_u W V Y X (C_at C (P + 14)) N 2792965006;
          X = md5_u X W V Y (C_at C (P + 15)) M 1236535329;
          Y = md5_f Y X W V (C_at C (P + 1)) A 4129170786;
          V = md5_f V Y X W (C_at C (P + 6)) z 3225465664;
          W = md5_f W V Y X (C_at C (P + 11)) y 643717713;
          X = md5_f X W V Y (C_at C (P + 0)) w 3921069994;
          Y = md5_f Y X W V (C_at C (P + 5)) A 3593408605;
          V = md5_f V Y X W (C_at C (P + 10)) z 38016083;
          W = md5_f W V Y X (C_at C (P + 15)) y 3634488961;
          X = md5_f X W V Y (C_at C (P + 4)) w 3889429448;
          Y = md5_f Y X W V (C_at C (P + 9)) A 568446438;
          V = md5_f V Y X W (C_at C (P + 14)) z 3275163606;
          W = md5_f W V Y X (C_at C (P + 3)) y 4107603335;
          X = md5_f X W V Y (C_at C (P + 8)) w 1163531501;
          Y = md5_f Y X W V (C_at C (P + 13)) A 2850285829;
          V = md5_f V Y X W (C_at C (P + 2)) z 4243563512;
          W = md5_f W V Y X (C_at C (P + 7)) y 1735328473;
          X = md5_f X W V Y (C_at C (P + 12)) w 2368359562;
          Y = md5_D Y X W V (C_at C (P + 5)) o' 4294588738;
          V = md5_D V Y X W (C_at C (P + 8)) m 2272392833;
          W = md5_D W V Y X (C_at C (P + 11)) l 1839030562;
          X = md5_D X W V Y (C_at C (P + 14)) j 4259657740;
          Y = md5_D Y X W V (C_at C (P + 1)) o' 2763975236;
          V = md5_D V Y X W (C_at C (P + 4)) m 1272893353;
          W = md5_D W V Y X (C_at C (P + 7)) l 4139469664;
          X = md5_D X W V Y (C_at C (P + 10)) j 3200236656;
          Y = md5_D Y X W V (C_at C (P + 13)) o' 681279174;
          V = md5_D V Y X W (C_at C (P + 0)) m 3936430074;
          W = md5_D W V Y X (C_at C (P + 3)) l 3572445317;
          X = md5_D X W V Y (C_at C (P + 6)) j 76029189;
          Y = md5_D Y X W V (C_at C (P + 9)) o' 3654602809;
          V = md5_D V Y X W (C_at C (P + 12)) m 3873151461;
          W = md5_D W V Y X (C_at C (P + 15)) l 530742520;
          X = md5_D X W V Y (C_at C (P + 2)) j 3299628645;
          Y = md5_t Y X W V (C_at C (P + 0)) U 4096336452;
          V = md5_t V Y X W (C_at C (P + 7)) T 1126891415;
          W = md5_t W V Y X (C_at C (P + 14)) R 2878612391;
          X = md5_t X W V Y (C_at C (P + 5)) O' 4237533241;
          Y = md5_t Y X W V (C_at C (P + 12)) U 1700485571;
          V = md5_t V Y X W (C_at C (P + 3)) T 2399980690;
          W = md5_t W V Y X (C_at C (P + 10)) R 4293915773;
          X = md5_t X W V Y (C_at C (P + 1)) O' 2240044497;
          Y = md5_t Y X W V (C_at C (P + 8)) U 1873313359;
          V = md5_t V Y X W (C_at C (P + 15)) T 4264355552;
          W = md5_t W V Y X (C_at C (P + 6)) R 2734768916;
          X = md5_t X W V Y (C_at C (P + 13)) O' 1309151649;
          Y = md5_t Y X W V (C_at C (P + 4)) U 4149444226;
          V = md5_t V Y X W (C_at C (P + 11)) T 3174756917;
          W = md5_t W V Y X (C_at C (P + 2)) R 718787259;
          X = md5_t X W V Y (C_at C (P + 9)) O' 3951481745;
          Y = md5_K Y h;
          X = md5_K X E;
          W = md5_K W v;
          V = md5_K V g
      in (Y, X, W, V))"

function md5_loop :: "u32 list \<Rightarrow> nat \<Rightarrow> u32 \<times> u32 \<times> u32 \<times> u32 \<Rightarrow> u32 \<times> u32 \<times> u32 \<times> u32" where
  "md5_loop C P st = (if P < length C then md5_loop C (P + 16) (md5_block C P st) else st)"
  by pat_completeness auto
termination
  by (relation "measure (\<lambda>(C, P, st). length C - P)") auto

declare md5_loop.simps [simp del]

text \<open>\<open>i.toLowerCase()\<close> on code units below 256\<close>

definition toLowerCase_char :: "char \<Rightarrow> char" where
  "toLowerCase_char c =
     (let x = (of_char c :: nat) in
      if (65 \<le> x \<and> x \<le> 90) \<or> (192 \<le> x \<and> x \<le> 222 \<and> x \<noteq> 215) then char_of (x + 32) else c)"

definition toLowerCase :: "string \<Rightarrow> string" where
  "toLowerCase s = map toLowerCase_char s"

definition md5 :: "string \<Rightarrow> string" where
  "md5 s =
     (let s = md5_J s;
          C = md5_e s;
          (Y, X, W, V) = md5_loop C 0 (1732584193, 4023233417, 2562383102, 271733878);
          i = md5_B Y @ md5_B X @ md5_B W @ md5_B V
      in toLowerCase i)"

section \<open>Module state\<close>

text \<open>The special characters of the protocol (\<open>char.tab\<close>, \<open>char.eol\<close>).\<close>

definition char_tab :: string where
  "char_tab = [char_of (9::nat)]"

definition char_eol :: string where
  "char_eol = [char_of (10::nat)]"

record header_obj =
  attribute :: jsobj
  gatewayIdentifier :: jsval

text \<open>
  Header objects live in a store, since two names may refer to one object. The object
  literal at the top of the module is the default header.
\<close>

type_synonym addr = nat

definition default_header :: header_obj where
  "default_header =
     \<lparr> attribute = [(''vendor'', JNull), (''hash'', JNull), (''secret'', JNull), (''time'', JNull)],
       gatewayIdentifier = JNull \<rparr>"

text \<open>
  The closure variable \<open>header\<close> is never assigned again: it refers to the default header
  object for good. The object itself can change, because the module hands it out as
  \<open>JOA.header\<close>.
\<close>

definition header_ref :: addr where
  "header_ref = 0"

definition protocolVersion :: string where
  "protocolVersion = ''MuniRPCv2:''"

text \<open>The enumeration \<open>messageType\<close>.\<close>

definition messageType_ZCLReport :: jsval where "messageType_ZCLReport = JNum 0"
definition messageType_ZCLMultiReport :: jsval where "messageType_ZCLMultiReport = JNum 1"
definition messageType_ZCLCommand :: jsval where "messageType_ZCLCommand = JNum 2"
definition messageType_TAZFrame :: jsval where "messageType_TAZFrame = JNum 3"
definition messageType_TimeIndication :: jsval where "messageType_TimeIndication = JStr ''t''"

text \<open>
  The mutable state of the module: the store of header objects, the property \<open>JOA.header\<close>
  (a reference), the counter \<open>messageId\<close> and the queue \<open>messages\<close>.
\<close>

record joa =
  heap :: "addr \<Rightarrow> header_obj"
  JOA_header_ref :: addr
  messageId :: int
  messages :: "jsobj list"

text \<open>The objects that \<open>header\<close> and \<open>JOA.header\<close> refer to.\<close>

definition header :: "joa \<Rightarrow> header_obj" where
  "header s = heap s header_ref"

definition JOA_header :: "joa \<Rightarrow> header_obj" where
  "JOA_header s = heap s (JOA_header_ref s)"

text \<open>On load, \<open>JOA.header = header\<close>: both names refer to the default header object.\<close>

definition initial :: joa where
  "initial = \<lparr> heap = (\<lambda>a. default_header), JOA_header_ref = header_ref,
               messageId = 0, messages = [] \<rparr>"

text \<open>\<open>headers(obj)\<close> makes \<open>JOA.header\<close> refer to the caller's object.\<close>

definition headers :: "addr \<Rightarrow> joa \<Rightarrow> joa" where
  "headers obj s = s\<lparr>JOA_header_ref := obj\<rparr>"

subsection \<open>What a caller does with header objects\<close>

text \<open>
  \<open>JOA.headers({...})\<close>, as the tests call it: the object literal makes a new object, at an
  address that neither \<open>header\<close> nor \<open>JOA.header\<close> refers to, and \<open>headers\<close> receives it.
\<close>

definition headers_literal :: "header_obj \<Rightarrow> joa \<Rightarrow> joa" where
  "headers_literal obj s =
     (let a = Suc (JOA_header_ref s) in headers a (s\<lparr>heap := (heap s)(a := obj)\<rparr>))"

text \<open>
  \<open>o[k] = v\<close> for a key that is not an array index: the property keeps its place when it
  exists and is added at the end otherwise.
\<close>

fun set_prop :: "jsobj \<Rightarrow> string \<Rightarrow> jsval \<Rightarrow> jsobj" where
  "set_prop [] k v = [(k, v)]"
| "set_prop ((k', v') # ps) k v =
     (if k' = k then (k, v) # ps else (k', v') # set_prop ps k v)"

text \<open>
  \<open>JOA.header.attribute[k] = v\<close> and \<open>JOA.header.gatewayIdentifier = v\<close>: writes to the
  object that \<open>JOA.header\<close> refers to, seen through every name of that object.
\<close>

definition assign_attribute :: "string \<Rightarrow> jsval \<Rightarrow> joa \<Rightarrow> joa" where
  "assign_attribute k v s =
     (let a = JOA_header_ref s; obj = heap s a
      in s\<lparr>heap := (heap s)(a := obj\<lparr>attribute := set_prop (attribute obj) k v\<rparr>)\<rparr>)"

definition assign_gatewayIdentifier :: "jsval \<Rightarrow> joa \<Rightarrow> joa" where
  "assign_gatewayIdentifier v s =
     (let a = JOA_header_ref s; obj = heap s a
      in s\<lparr>heap := (heap s)(a := obj\<lparr>gatewayIdentifier := v\<rparr>)\<rparr>)"

section \<open>Header builder\<close>

text \<open>
  The body of the loop over \<open>headerAttributeKeys\<close>, for the keys still to visit and the
  header string built so far.
\<close>

fun constructHeader_loop :: "jsobj \<Rightarrow> string list \<Rightarrow> string \<Rightarrow> error + string" where
  "constructHeader_loop attr [] headerStr = Inr headerStr"
| "constructHeader_loop attr (attributeKey # ks) headerStr =
     (let attributeValue = get_prop attr attributeKey in
      case (if attributeValue \<noteq> JNull then length_gt_0 attributeValue else Inr False) of
        Inl exn \<Rightarrow> Inl exn
      | Inr nonempty \<Rightarrow>
          if nonempty \<or> truthy attributeValue then
            (if attributeKey = ''time'' then
               constructHeader_loop attr ks (headerStr @ '',time'')
             else if attributeKey \<noteq> ''secret'' \<and> attributeKey \<noteq> ''hash'' then
               constructHeader_loop attr ks
                 (headerStr @ '','' @ attributeKey @ ''='' @ ToString attributeValue)
             else constructHeader_loop attr ks headerStr)
          else constructHeader_loop attr ks headerStr)"

definition constructHeader :: "joa \<Rightarrow> error + string" where
  "constructHeader s =
     (let headerAttributeKeys = Object_keys (attribute (header s));
          gw = gatewayIdentifier (JOA_header s) in
      case (if gw \<noteq> JNull then length_gt_0 gw else Inr False) of
        Inl exn \<Rightarrow> Inl exn
      | Inr True \<Rightarrow>
          (case constructHeader_loop (attribute (JOA_header s)) headerAttributeKeys
                  (protocolVersion @ ToString gw) of
             Inl exn \<Rightarrow> Inl exn
           | Inr headerStr0 \<Rightarrow>
               (let headerStr = headerStr0 @ char_eol in
                if indexOf headerStr ''vendor='' \<noteq> - 1 then Inr headerStr
                else Inl no_vendor_attribute_set))
      | Inr False \<Rightarrow> Inl no_gatewayidentifier_set)"

section \<open>Message queue\<close>

text \<open>
  The inner loop of \<open>constructMessages\<close> appends every field value and a tab; the last
  tab is then cut off and the line ended.
\<close>

definition convertMessage :: "jsobj \<Rightarrow> string" where
  "convertMessage message =
     (let messageKeys = Object_keys message;
          convertedMessage =
            foldl (\<lambda>acc key. acc @ ToString (get_prop message key) @ char_tab) [] messageKeys
      in slice convertedMessage 0 (- 1) @ char_eol)"

definition constructMessages :: "joa \<Rightarrow> string list" where
  "constructMessages s = map convertMessage (messages s)"

text \<open>
  \<open>messageId++\<close> on a double: below \<open>2 ^ 53 = 9007199254740992\<close> the sum is exact; at
  \<open>2 ^ 53\<close> the sum \<open>2 ^ 53 + 1\<close> is rounded back to \<open>2 ^ 53\<close> and the counter stays. The
  counter starts at 0, so it never holds a larger value.
\<close>

definition increment :: "int \<Rightarrow> int" where
  "increment n = (if n < 9007199254740992 then n + 1 else n)"

definition generateId :: "joa \<Rightarrow> int \<times> joa" where
  "generateId s = (let s' = s\<lparr>messageId := increment (messageId s)\<rparr> in (messageId s', s'))"

definition push :: "jsobj \<Rightarrow> joa \<Rightarrow> joa" where
  "push obj s = s\<lparr>messages := messages s @ [obj]\<rparr>"

definition addZCLReport ::
  "jsval \<Rightarrow> jsval \<Rightarrow> jsval \<Rightarrow> jsval \<Rightarrow> jsval \<Rightarrow> jsval \<Rightarrow> jsval \<Rightarrow> jsval \<Rightarrow> joa \<Rightarrow> jsobj \<times> joa" where
  "addZCLReport eui64 endpointId profileId clusterId attributeId dataTypeId timestamp val s =
     (let (i, s1) = generateId s;
          obj = [(''id'', JNum i),
                 (''messageType'', messageType_ZCLReport),
                 (''eui64'', eui64),
                 (''endpointId'', js_or endpointId (JStr ''0x0a'')),
                 (''profileId'', js_or profileId (JStr ''0xf100'')),
                 (''clusterId'', clusterId),
                 (''attributeId'', attributeId),
                 (''dataTypeId'', dataTypeId),
                 (''timestamp'', timestamp),
                 (''value'', val)]
      in (obj, push obj s1))"

definition addZCLMultiReport ::
  "jsval \<Rightarrow> jsval \<Rightarrow> jsval \<Rightarrow> jsval \<Rightarrow> jsval \<Rightarrow> jsval \<Rightarrow> jsval \<Rightarrow> jsval \<Rightarrow> jsval \<Rightarrow> joa \<Rightarrow> jsobj \<times> joa" where
  "addZCLMultiReport eui64 endpointId profileId clusterId attributeId dataTypeId timestamp offset vals s =
     (let (i, s1) = generateId s;
          obj = [(''id'', JNum i),
                 (''messageType'', messageType_ZCLMultiReport),
                 (''eui64'', eui64),
                 (''endpointId'', js_or endpointId (JStr ''0x0a'')),
                 (''profileId'', js_or profileId (JStr ''0xf100'')),
                 (''clusterId'', clusterId),
                 (''attributeId'', attributeId),
                 (''dataTypeId'', dataTypeId),
                 (''timestamp'', timestamp),
                 (''offset'', offset),
                 (''values'', vals)]
      in (obj, push obj s1))"

text \<open>
  \<open>addZCLCommand\<close> reads an identifier \<open>offset\<close> in its object literal. It is not among
  the function's parameters, the module declares no such variable, and neither a browser
  nor Node defines a global of that name: the lookup finds nothing.
\<close>

definition scope_offset :: "jsval option" where
  "scope_offset = None"

definition addZCLCommand ::
  "jsval \<Rightarrow> jsval \<Rightarrow> jsval \<Rightarrow> jsval \<Rightarrow> jsval \<Rightarrow> jsval \<Rightarrow> jsval \<Rightarrow> jsval \<Rightarrow> joa \<Rightarrow> (error + jsobj) \<times> joa" where
  "addZCLCommand eui64 endpointId profileId clusterId isClusterSpecific commandId timestamp val s =
     (let (i, s1) = generateId s in
      case scope_offset of
        None \<Rightarrow> (Inl ReferenceError, s1)
      | Some offset \<Rightarrow>
          (let obj = [(''id'', JNum i),
                      (''messageType'', messageType_ZCLCommand),
                      (''eui64'', eui64),
                      (''endpointId'', js_or endpointId (JStr ''0x0a'')),
                      (''profileId'', js_or profileId (JStr ''0xf100'')),
                      (''clusterId'', clusterId),
                      (''isClusterSpecific'', isClusterSpecific),
                      (''commandId'', commandId),
                      (''timestamp'', timestamp),
                      (''offset'', offset),
                      (''value'', val)]
           in (Inr obj, push obj s1)))"

definition addTime :: "jsval \<Rightarrow> joa \<Rightarrow> jsobj \<times> joa" where
  "addTime timestamp s =
     (let (i, s1) = generateId s;
          obj = [(''id'', JNum i),
                 (''messageType'', messageType_TimeIndication),
                 (''timestamp'', timestamp)]
      in (obj, push obj s1))"

definition clearMessages :: "joa \<Rightarrow> joa" where
  "clearMessages s = s\<lparr>messages := []\<rparr>"

text \<open>\<open>messages.splice(i, 1)\<close>\<close>

definition splice1 :: "'a list \<Rightarrow> nat \<Rightarrow> 'a list" where
  "splice1 xs i = take i xs @ drop (Suc i) xs"

function removeMessage_loop :: "jsval \<Rightarrow> nat \<Rightarrow> jsobj list \<Rightarrow> bool \<times> jsobj list" where
  "removeMessage_loop idv i ms =
     (if i < length ms then
        (if strict_eq (get_prop (ms ! i) ''id'') idv then (True, splice1 ms i)
         else removeMessage_loop idv (Suc i) ms)
      else (False, ms))"
  by pat_completeness auto
termination
  by (relation "measure (\<lambda>(idv, i, ms). length ms - i)") auto

declare removeMessage_loop.simps [simp del]

definition removeMessage :: "jsval \<Rightarrow> joa \<Rightarrow> bool \<times> joa" where
  "removeMessage idv s =
     (let (r, ms) = removeMessage_loop idv 0 (messages s) in (r, s\<lparr>messages := ms\<rparr>))"

section \<open>Payload composer\<close>

text \<open>
  \<open>hashJOAPayload\<close> also writes three lines to the console; they do not change the
  result and are left out.
\<close>

definition hashJOAPayload :: "joa \<Rightarrow> string \<Rightarrow> string" where
  "hashJOAPayload s payload =
     (let indexOfHashHeader = indexOf payload char_eol;
          secret = get_prop (attribute (JOA_header s)) ''secret''
      in slice payload 0 indexOfHashHeader @ '',hash='' @ md5 (ToString secret @ payload)
           @ slice_from payload indexOfHashHeader)"

text \<open>
  \<open>result + constructMessages()\<close> adds an array to a string: the array is rendered by
  \<open>Array.prototype.toString\<close>.
\<close>

definition constructJOAPayload :: "joa \<Rightarrow> error + string" where
  "constructJOAPayload s =
     (case constructHeader s of
        Inl err \<Rightarrow> Inl err
      | Inr result \<Rightarrow>
          (let hash = get_prop (attribute (JOA_header s)) ''hash'';
               secret = get_prop (attribute (JOA_header s)) ''secret''
           in if \<not> truthy hash then Inr (result @ Array_toString (constructMessages s))
              else if truthy hash \<and> truthy secret \<and> length_gt_0 secret = Inr True then
                Inr (hashJOAPayload s (result @ Array_toString (constructMessages s)))
              else Inl no_secret_set))"

section \<open>Sequences of queue operations\<close>

text \<open>
  The calls that touch the queue or the counter. An add returns the report it created;
  \<open>addZCLCommand\<close> throws after it has taken an id, and the state it leaves is kept.
\<close>

datatype operation =
    AddZCLReport jsval jsval jsval jsval jsval jsval jsval jsval
  | AddZCLMultiReport jsval jsval jsval jsval jsval jsval jsval jsval jsval
  | AddZCLCommand jsval jsval jsval jsval jsval jsval jsval jsval
  | AddTime jsval
  | RemoveMessage jsval
  | ClearMessages

fun apply_operation :: "operation \<Rightarrow> joa \<Rightarrow> jsobj option \<times> joa" where
  "apply_operation (AddZCLReport a b c d e f g h) s =
     (let (obj, s') = addZCLReport a b c d e f g h s in (Some obj, s'))"
| "apply_operation (AddZCLMultiReport a b c d e f g h i) s =
     (let (obj, s') = addZCLMultiReport a b c d e f g h i s in (Some obj, s'))"
| "apply_operation (AddZCLCommand a b c d e f g h) s =
     (case addZCLCommand a b c d e f g h s of
        (Inl exn, s') \<Rightarrow> (None, s')
      | (Inr obj, s') \<Rightarrow> (Some obj, s'))"
| "apply_operation (AddTime a) s = (let (obj, s') = addTime a s in (Some obj, s'))"
| "apply_operation (RemoveMessage idv) s = (None, snd (removeMessage idv s))"
| "apply_operation ClearMessages s = (None, clearMessages s)"

text \<open>The reports created by a sequence of calls, in the order of their creation.\<close>

fun run :: "operation list \<Rightarrow> joa \<Rightarrow> jsobj list \<times> joa" where
  "run [] s = ([], s)"
| "run (x # xs) s =
     (let (r, s1) = apply_operation x s;
          (rs, s2) = run xs s1
      in ((case r of None \<Rightarrow> [] | Some obj \<Rightarrow> [obj]) @ rs, s2))"

text \<open>\<open>a < b\<close> on numbers\<close>

fun js_less :: "jsval \<Rightarrow> jsval \<Rightarrow> bool" where
  "js_less (JNum a) (JNum b) = (a < b)"
| "js_less _ _ = False"

text \<open>The report's id is a number above \<open>lo\<close> and at most \<open>hi\<close>.\<close>

definition id_in :: "jsobj \<Rightarrow> int \<Rightarrow> int \<Rightarrow> bool" where
  "id_in obj lo hi =
     (case get_prop obj ''id'' of JNum n \<Rightarrow> lo < n \<and> n \<le> hi | _ \<Rightarrow> False)"

section \<open>Notions used in the statements\<close>

text \<open>The lowercase hexadecimal digits.\<close>

definition hex_digits :: "char set" where
  "hex_digits = set ''0123456789abcdef''"

text \<open>What the \<open>time\<close> attribute adds to the header line.\<close>

definition time_part :: "jsval \<Rightarrow> string" where
  "time_part tv = (if truthy tv then '',time'' else [])"

section \<open>Example configurations\<close>

text \<open>A header object written as the tests write it.\<close>

definition test_header :: "jsval \<Rightarrow> jsval \<Rightarrow> jsval \<Rightarrow> jsval \<Rightarrow> jsval \<Rightarrow> header_obj" where
  "test_header vendor time hash secret gw =
     \<lparr> attribute = [(''vendor'', vendor), (''time'', time), (''hash'', hash), (''secret'', secret)],
       gatewayIdentifier = gw \<rparr>"

definition debug_header :: header_obj where
  "debug_header = test_header (JStr ''debug'') (JBool False) (JBool False) JNull (JStr ''0.0.0.0'')"

text \<open>
  The default header object configured in place, without a call of \<open>headers\<close>, and then
  given one more attribute.
\<close>

definition configured_in_place :: joa where
  "configured_in_place =
     assign_attribute ''vendor'' (JStr ''debug'') (assign_gatewayIdentifier (JStr ''0.0.0.0'') initial)"

definition extra_in_place :: joa where
  "extra_in_place = assign_attribute ''extra'' (JStr ''x'') configured_in_place"

text \<open>The module after \<open>2 ^ 53 - 1\<close> ids have been given out, with an empty queue.\<close>

definition last_exact :: joa where
  "last_exact = initial\<lparr>messageId := 9007199254740991\<rparr>"

text \<open>
  The default header object configured in place with a gatewayIdentifier and one more
  attribute, the vendor left \<open>null\<close>.
\<close>

definition xvendor_in_place :: joa where
  "xvendor_in_place =
     assign_attribute ''xvendor'' (JStr ''1'') (assign_gatewayIdentifier (JStr ''0.0.0.0'') initial)"

text \<open>A report as \<open>addTime\<close> builds it, with a given id.\<close>

definition time_report :: "int \<Rightarrow> jsobj" where
  "time_report i = [(''id'', JNum i), (''messageType'', JStr ''t''), (''timestamp'', JNum 1000)]"

text \<open>The first two reports of the tests, queued one after the other, under the debug header.\<close>

definition two_reports :: joa where
  "two_reports =
     headers_literal debug_header
       (snd (addZCLReport (JNum 123) JNull JNull (JStr ''c'') (JStr ''d'') (JStr ''e'') (JNum 1000) (JStr ''hello'')
         (snd (addZCLReport (JNum 123) (JStr ''a'') (JStr ''b'') (JStr ''c'') (JStr ''d'') (JStr ''e'') (JNum 1000) (JStr ''hello'')
            initial))))"

text \<open>The debug header with hashing switched on.\<close>

definition hashed_debug :: joa where
  "hashed_debug =
     headers_literal (test_header (JStr ''debug'') (JBool False) (JBool True) (JStr ''simplesecret'')
                (JStr ''0.0.0.0'')) initial"

text \<open>
  The run of the tests up to the end-to-end scenario: three reports are created and the
  third removed, the queue is cleared, one report is added and the header is set.
\<close>

definition before_scenario :: joa where
  "before_scenario =
     snd (removeMessage (JNum 3)
       (snd (addZCLReport (JNum 123) JNull JNull (JStr ''c'') (JStr ''d'') (JStr ''e'') (JNum 1000) (JStr ''hello'')
         (snd (addZCLReport (JNum 123) JNull JNull (JStr ''c'') (JStr ''d'') (JStr ''e'') (JNum 1000) (JStr ''hello'')
           (snd (addZCLReport (JNum 123) (JStr ''a'') (JStr ''b'') (JStr ''c'') (JStr ''d'') (JStr ''e'') (JNum 1000) (JStr ''hello'')
              initial)))))))"

definition scenario :: joa where
  "scenario =
     headers_literal (test_header (JStr ''androidnode'') (JBool True) (JBool True)
                (JStr ''waiga6ieGo4eefo2thaQuash4ahc4aid'') (JStr ''10.32.16.1''))
       (snd (addZCLReport (JStr ''f104:00ff:0000:0001'') JNull JNull (JStr ''0x0402'') (JStr ''0x0000'')
               (JStr ''0x20'') (JNum 1474552384381) (JStr ''1'')
          (clearMessages before_scenario)))"

text \<open>The header line and the report line of the scenario, and what is digested.\<close>

definition scenario_header :: string where
  "scenario_header = ''MuniRPCv2:10.32.16.1,vendor=androidnode,time''"

definition scenario_line :: string where
  "scenario_line = ''4'' @ char_tab @ ''0'' @ char_tab @ ''f104:00ff:0000:0001'' @ char_tab @ ''0x0a'' @ char_tab @ ''0xf100'' @ char_tab @ ''0x0402'' @ char_tab @ ''0x0000'' @ char_tab @ ''0x20'' @ char_tab @ ''1474552384381'' @ char_tab @ ''1'' @ char_eol"

definition scenario_input :: string where
  "scenario_input = ''waiga6ieGo4eefo2thaQuash4ahc4aid'' @ scenario_header @ char_eol @ scenario_line"

text \<open>The words of the three blocks that \<open>e\<close> makes of \<open>scenario_input\<close>.\<close>

definition scenario_words :: "u32 list" where
  "scenario_words = [1734959479, 1701394017, 1697935175, 846161509, 1365338228, 1752392053,
  1667785012, 1684627764, 1768846669, 1984122962, 808532530, 775041838,
  825112113, 1852143148, 1030909796, 1919184481, 1852074351, 744842351,
  1701669236, 805909514, 808543753, 808466996, 809133670, 976236592,
  825241648, 813182985, 2016414049, 808464742, 813182985, 154284084,
  808482864, 805908528, 154153592, 876033073, 858928437, 942879800,
  170985777, 128, 0, 0, 0, 0, 0, 0, 0, 0, 1184, 0]"

section \<open>Helper lemmas\<close>

lemma JOA_header_headers_literal: "JOA_header (headers_literal obj s) = obj"
  by (simp add: headers_literal_def headers_def JOA_header_def Let_def)

lemma header_headers_literal: "header (headers_literal obj s) = header s"
  by (simp add: headers_literal_def headers_def header_def header_ref_def Let_def)

lemma header_initial: "header initial = default_header"
  by (simp add: header_def initial_def)

lemma Object_keys_default_header:
  "Object_keys (attribute default_header) = [''vendor'', ''hash'', ''secret'', ''time'']"
  by (simp add: Object_keys_def default_header_def)

lemma constructHeader_loop_cong:
  assumes "\<forall>k \<in> set ks. get_prop a1 k = get_prop a2 k"
  shows "constructHeader_loop a1 ks acc = constructHeader_loop a2 ks acc"
  using assms
proof (induction ks arbitrary: acc)
  case Nil
  show ?case by simp
next
  case (Cons k ks)
  then have eq: "get_prop a1 k = get_prop a2 k"
    and rest: "\<And>acc. constructHeader_loop a1 ks acc = constructHeader_loop a2 ks acc"
    by simp_all
  show ?case by (simp only: constructHeader_loop.simps eq rest)
qed

lemma removeMessage_loop_found:
  assumes "i \<le> length ms" "\<exists>m \<in> set (drop i ms). get_prop m ''id'' = idv"
  shows "\<exists>pre m post. drop i ms = pre @ m # post \<and> get_prop m ''id'' = idv \<and>
           (\<forall>x \<in> set pre. get_prop x ''id'' \<noteq> idv) \<and>
           removeMessage_loop idv i ms = (True, take i ms @ pre @ post)"
  using assms
proof (induction idv i ms rule: removeMessage_loop.induct)
  case (1 idv i ms)
  from "1.prems" have lt: "i < length ms" by (cases "i < length ms") auto
  then have d: "drop i ms = ms ! i # drop (Suc i) ms" by (simp add: Cons_nth_drop_Suc)
  show ?case
  proof (cases "get_prop (ms ! i) ''id'' = idv")
    case True
    have "removeMessage_loop idv i ms = (True, take i ms @ [] @ drop (Suc i) ms)"
      using lt True by (simp add: removeMessage_loop.simps strict_eq_def splice1_def)
    with d True show ?thesis
      by (intro exI[of _ "[]"] exI[of _ "ms ! i"] exI[of _ "drop (Suc i) ms"]) simp
  next
    case False
    then have "\<exists>m \<in> set (drop (Suc i) ms). get_prop m ''id'' = idv"
      using "1.prems"(2) d by auto
    with "1.IH" lt False obtain pre m post where
      h: "drop (Suc i) ms = pre @ m # post" "get_prop m ''id'' = idv"
         "\<forall>x \<in> set pre. get_prop x ''id'' \<noteq> idv"
         "removeMessage_loop idv (Suc i) ms = (True, take (Suc i) ms @ pre @ post)"
      by (auto simp: strict_eq_def)
    have "removeMessage_loop idv i ms = (True, take i ms @ (ms ! i # pre) @ post)"
      using lt False h(4)
      by (simp add: removeMessage_loop.simps[of idv i ms] strict_eq_def take_Suc_conv_app_nth)
    with h d False show ?thesis
      by (intro exI[of _ "ms ! i # pre"] exI[of _ m] exI[of _ post]) simp
  qed
qed

lemma removeMessage_loop_absent:
  assumes "\<forall>m \<in> set (drop i ms). get_prop m ''id'' \<noteq> idv"
  shows "removeMessage_loop idv i ms = (False, ms)"
  using assms
proof (induction idv i ms rule: removeMessage_loop.induct)
  case (1 idv i ms)
  show ?case
  proof (cases "i < length ms")
    case True
    then have d: "drop i ms = ms ! i # drop (Suc i) ms" by (simp add: Cons_nth_drop_Suc)
    with "1.prems" have ne: "get_prop (ms ! i) ''id'' \<noteq> idv"
      and rest: "\<forall>m \<in> set (drop (Suc i) ms). get_prop m ''id'' \<noteq> idv" by auto
    from "1.IH" True ne rest have "removeMessage_loop idv (Suc i) ms = (False, ms)"
      by (simp add: strict_eq_def)
    then show ?thesis
      using True ne by (simp add: removeMessage_loop.simps[of idv i ms] strict_eq_def)
  next
    case False
    then show ?thesis by (simp add: removeMessage_loop.simps)
  qed
qed

lemma messageId_removeMessage: "messageId (snd (removeMessage idv s)) = messageId s"
  by (simp add: removeMessage_def split: prod.splits)

lemma id_in_iff:
  "id_in obj lo hi \<longleftrightarrow> (\<exists>n. get_prop obj ''id'' = JNum n \<and> lo < n \<and> n \<le> hi)"
  by (cases "get_prop obj ''id''") (simp_all add: id_in_def)

lemma increment_mono: "n \<le> increment n"
  by (simp add: increment_def)

lemma increment_below: "increment n < 9007199254740992 \<Longrightarrow> increment n = n + 1"
  by (simp add: increment_def split: if_splits)

lemma apply_operation_mono:
  assumes "apply_operation x s = (r, s')"
  shows "messageId s \<le> messageId s'"
  using assms increment_mono [of "messageId s"]
  by (cases x)
     (auto simp: addZCLReport_def addZCLMultiReport_def addZCLCommand_def addTime_def
        generateId_def push_def Let_def scope_offset_def removeMessage_def clearMessages_def
        split: prod.splits)

lemma run_mono:
  assumes "run xs s = (created, s')"
  shows "messageId s \<le> messageId s'"
  using assms
proof (induction xs arbitrary: s created s')
  case Nil
  then show ?case by simp
next
  case (Cons x xs)
  obtain r s1 where step: "apply_operation x s = (r, s1)" by (cases "apply_operation x s")
  obtain rs s2 where rest: "run xs s1 = (rs, s2)" by (cases "run xs s1")
  from Cons.prems step rest have "s' = s2" by simp
  with apply_operation_mono [OF step] Cons.IH [OF rest] show ?case by simp
qed

lemma apply_operation_id:
  assumes "apply_operation x s = (r, s')" and "messageId s' < 9007199254740992"
  shows "case r of None \<Rightarrow> True
         | Some obj \<Rightarrow> messageId s < messageId s' \<and> get_prop obj ''id'' = JNum (messageId s')"
  using assms increment_below [of "messageId s"]
  by (cases x)
     (auto simp: addZCLReport_def addZCLMultiReport_def addZCLCommand_def addTime_def
        generateId_def push_def Let_def get_prop_def scope_offset_def removeMessage_def
        clearMessages_def
        split: prod.splits)

lemma run_ids:
  assumes "run xs s = (created, s')" and "messageId s' < 9007199254740992"
  shows "sorted_wrt js_less (map (\<lambda>obj. get_prop obj ''id'') created) \<and>
         (\<forall>obj \<in> set created. id_in obj (messageId s) (messageId s'))"
  using assms
proof (induction xs arbitrary: s created s')
  case Nil
  then show ?case by simp
next
  case (Cons x xs)
  obtain r s1 where step: "apply_operation x s = (r, s1)" by (cases "apply_operation x s")
  obtain rs s2 where rest: "run xs s1 = (rs, s2)" by (cases "run xs s1")
  from Cons.prems step rest
  have cr: "created = (case r of None \<Rightarrow> [] | Some obj \<Rightarrow> [obj]) @ rs"
    and s': "s' = s2" by simp_all
  from Cons.prems(2) s' have b2: "messageId s2 < 9007199254740992" by simp
  from run_mono [OF rest] have m12: "messageId s1 \<le> messageId s2" .
  with b2 have b1: "messageId s1 < 9007199254740992" by simp
  from apply_operation_mono [OF step] have m01: "messageId s \<le> messageId s1" .
  from Cons.IH [OF rest b2] have ih:
     "sorted_wrt js_less (map (\<lambda>obj. get_prop obj ''id'') rs)"
     "\<forall>obj \<in> set rs. id_in obj (messageId s1) (messageId s2)" by simp_all
  from apply_operation_id [OF step b1] have st:
    "case r of None \<Rightarrow> True
     | Some obj \<Rightarrow> messageId s < messageId s1 \<and> get_prop obj ''id'' = JNum (messageId s1)" .
  have mono: "id_in obj (messageId s) (messageId s2)" if "obj \<in> set rs" for obj
    using ih(2) m01 that by (fastforce simp: id_in_iff)
  show ?case
  proof (cases r)
    case None
    with cr s' ih mono show ?thesis by simp
  next
    case (Some obj)
    with st have lt: "messageId s < messageId s1"
      and oid: "get_prop obj ''id'' = JNum (messageId s1)"
      by simp_all
    have "js_less (get_prop obj ''id'') (get_prop y ''id'')" if "y \<in> set rs" for y
      using ih(2) that oid by (fastforce simp: id_in_iff)
    moreover have "id_in obj (messageId s) (messageId s2)"
      using lt oid m12 by (simp add: id_in_iff)
    ultimately show ?thesis using Some cr s' ih mono by auto
  qed
qed

lemma sorted_wrt_js_less_distinct: "sorted_wrt js_less vs \<Longrightarrow> distinct vs"
proof (induction vs)
  case Nil
  show ?case by simp
next
  case (Cons v vs)
  have "\<not> js_less v v" by (cases v) simp_all
  with Cons show ?case by auto
qed

subsection \<open>The digest is 32 hexadecimal digits\<close>

lemma hex_char_table: "map hex_char [0..<16] = ''0123456789abcdef''"
  by code_simp

lemma hex_char_hex:
  assumes "d < 16"
  shows "hex_char d \<in> hex_digits"
proof -
  have "hex_char d = map hex_char [0..<16] ! d"
    using assms by (simp only: nth_map length_upt nth_upt minus_nat.diff_0 add_0)
  also have "\<dots> \<in> set (map hex_char [0..<16])"
    using assms by (intro nth_mem) simp
  finally show ?thesis by (simp only: hex_char_table hex_digits_def)
qed

lemma toLowerCase_table: "map toLowerCase_char ''0123456789abcdef'' = ''0123456789abcdef''"
  by code_simp

lemma toLowerCase_hex: "c \<in> hex_digits \<Longrightarrow> toLowerCase_char c = c"
  using toLowerCase_table by (auto simp: hex_digits_def)

lemma hex_char_0: "hex_char 0 = CHR ''0''"
  using hex_char_table by (simp add: upt_rec)

lemma two_hex:
  assumes "n < 256"
  shows "substr (''0'' @ toString16 n) (int (length (''0'' @ toString16 n)) - 2) 2
           = [hex_char (n div 16), hex_char (n mod 16)]"
proof (cases "n < 16")
  case True
  then have "toString16 n = [hex_char n]" by (simp add: toString16.simps)
  with True show ?thesis by (simp add: substr_def hex_char_0)
next
  case False
  with assms have "n div 16 < 16" by simp
  then have "toString16 (n div 16) = [hex_char (n div 16)]" by (simp add: toString16.simps)
  with False have "toString16 n = [hex_char (n div 16), hex_char (n mod 16)]"
    by (simp add: toString16.simps[of n])
  then show ?thesis by (simp add: substr_def)
qed

lemma byte_bound: "unat ((w :: u32) AND 255) < 256"
proof -
  have "unat (w AND 255) \<le> unat (255 :: u32)"
    by (rule word_and_le1 [THEN word_le_nat_alt [THEN iffD1]])
  then show ?thesis by simp
qed

lemma md5_B_step_eq:
  "md5_B_step x k d = k @ [hex_char (unat (drop_bit (d * 8) x AND 255) div 16),
                           hex_char (unat (drop_bit (d * 8) x AND 255) mod 16)]"
  unfolding md5_B_step_def Let_def using two_hex [OF byte_bound] by simp

lemma md5_B_shape: "length (md5_B x) = 8 \<and> set (md5_B x) \<subseteq> hex_digits"
proof -
  have b: "unat (w AND 255) div 16 < 16" "unat (w AND 255) mod 16 < 16" for w :: u32
    using byte_bound [of w] by simp_all
  show ?thesis
    by (simp add: md5_B_def md5_B_step_eq hex_char_hex b)
qed

lemma md5_shape: "length (md5 s) = 32 \<and> set (md5 s) \<subseteq> hex_digits"
proof -
  obtain Y X W V where l: "md5_loop (md5_e (md5_J s)) 0 (1732584193, 4023233417, 2562383102, 271733878) = (Y, X, W, V)"
    by (metis prod_cases4)
  let ?i = "md5_B Y @ md5_B X @ md5_B W @ md5_B V"
  have m: "md5 s = toLowerCase ?i"
    using l by (simp add: md5_def Let_def)
  have h: "set ?i \<subseteq> hex_digits" and len: "length ?i = 32"
    using md5_B_shape by simp_all
  have "toLowerCase ?i = ?i"
    unfolding toLowerCase_def using h by (intro map_idI toLowerCase_hex) auto
  with m h len show ?thesis by simp
qed

lemma indexOf_from_char:
  "indexOf_from s [c] i = (if c \<in> set s then int (i + length (takeWhile (\<lambda>x. x \<noteq> c) s)) else - 1)"
  by (induction s arbitrary: i) auto

lemma indexOf_eol_append:
  assumes "c \<notin> set pre"
  shows "indexOf (pre @ [c] @ post) [c] = int (length pre)"
proof -
  have "takeWhile (\<lambda>x. x \<noteq> c) (pre @ [c] @ post) = pre"
    using assms by (induction pre) auto
  then show ?thesis by (simp add: indexOf_def indexOf_from_char)
qed

lemma slice_take: "i \<le> length p \<Longrightarrow> slice p 0 (int i) = take i p"
  by (simp add: slice_def Let_def min_def)

lemma slice_from_drop: "i \<le> length p \<Longrightarrow> slice_from p (int i) = drop i p"
  by (simp add: slice_from_def slice_def Let_def min_def)

lemma split_first:
  assumes "c \<in> set h"
  shows "\<exists>pre post. h = pre @ [c] @ post \<and> c \<notin> set pre"
  using assms split_list_first [of c h] by auto

lemma constructHeader_eol:
  assumes "constructHeader s = Inr h"
  shows "\<exists>h0. h = h0 @ char_eol"
  using assms
  by (auto simp: constructHeader_def Let_def split: sum.splits bool.splits if_splits)

subsection \<open>Searching the header line\<close>

lemma indexOf_from_neg: "indexOf_from s pat i = - 1 \<longleftrightarrow> \<not> sublist pat s"
  by (induction s arbitrary: i) (auto simp: sublist_Cons_right)

lemma indexOf_neg: "indexOf s pat = - 1 \<longleftrightarrow> \<not> sublist pat s"
  by (simp add: indexOf_def indexOf_from_neg)

lemma prefix_append_last:
  assumes "prefix pat (ys @ zs)" and "pat \<noteq> []" and "last pat \<notin> set zs"
  shows "prefix pat ys"
proof -
  from assms(1) consider "prefix pat ys" | us where "pat = ys @ us" "prefix us zs"
    by (auto simp: prefix_append)
  then show ?thesis
  proof cases
    case 1
    then show ?thesis .
  next
    case 2
    show ?thesis
    proof (cases "us = []")
      case True
      with 2 show ?thesis by simp
    next
      case False
      with 2(1) have "last pat = last us" by simp
      moreover from False have "last us \<in> set us" by simp
      moreover from 2(2) have "set us \<subseteq> set zs" by (rule set_mono_prefix)
      ultimately show ?thesis using assms(3) by auto
    qed
  qed
qed

lemma sublist_append_last:
  assumes "sublist pat (ys @ zs)" and "pat \<noteq> []" and "last pat \<notin> set zs"
  shows "sublist pat ys"
  using assms(1)
proof (induction ys)
  case Nil
  then have "set pat \<subseteq> set zs" by (simp add: set_mono_sublist)
  with assms(2,3) show ?case using last_in_set by blast
next
  case (Cons y ys)
  from Cons.prems have "prefix pat ((y # ys) @ zs) \<or> sublist pat (ys @ zs)"
    by (simp add: sublist_Cons_right)
  then show ?case
  proof
    assume "prefix pat ((y # ys) @ zs)"
    then have "prefix pat (y # ys)" using assms(2,3) by (rule prefix_append_last)
    then show ?thesis by (rule prefix_imp_sublist)
  next
    assume "sublist pat (ys @ zs)"
    then have "sublist pat ys" by (rule Cons.IH)
    then show ?thesis by (simp add: sublist_Cons_right)
  qed
qed

lemma char_eol_eq: "char_eol = [CHR 0x0A]"
  by code_simp

lemma char_tab_eq: "char_tab = [CHR 0x09]"
  by code_simp

lemma vendor_not_in_prefix:
  "sublist ''vendor='' (protocolVersion @ g) \<longleftrightarrow> sublist ''vendor='' g"
  by (simp add: protocolVersion_def sublist_Cons_right)

lemma header_no_vendor:
  assumes "\<not> sublist ''vendor='' g"
  shows "\<not> sublist ''vendor='' ((protocolVersion @ g @ time_part tv) @ char_eol)"
proof
  assume a: "sublist ''vendor='' ((protocolVersion @ g @ time_part tv) @ char_eol)"
  have "sublist ''vendor='' ((protocolVersion @ g) @ (time_part tv @ char_eol))"
    using a by simp
  then have "sublist ''vendor='' (protocolVersion @ g)"
    by (rule sublist_append_last) (auto simp: time_part_def char_eol_eq)
  with assms show False by (simp add: vendor_not_in_prefix)
qed

lemma loop_skip:
  assumes "k = ''hash'' \<or> k = ''secret''" and "get_prop attr k \<noteq> JUndefined"
  shows "constructHeader_loop attr (k # ks) acc = constructHeader_loop attr ks acc"
  using assms by (cases "get_prop attr k") auto

lemma loop_time:
  assumes "get_prop attr ''time'' \<noteq> JUndefined"
  shows "constructHeader_loop attr (''time'' # ks) acc
           = constructHeader_loop attr ks (acc @ time_part (get_prop attr ''time''))"
  using assms by (cases "get_prop attr ''time''") (auto simp: time_part_def)

lemma loop_vendor_absent:
  assumes "get_prop attr ''vendor'' = JNull \<or> get_prop attr ''vendor'' = JStr []"
  shows "constructHeader_loop attr (''vendor'' # ks) acc = constructHeader_loop attr ks acc"
  using assms by auto

lemma loop_vendor_present:
  assumes "get_prop attr ''vendor'' = JStr v" and "v \<noteq> []"
  shows "constructHeader_loop attr (''vendor'' # ks) acc
           = constructHeader_loop attr ks (acc @ '',vendor='' @ v)"
  using assms by simp

lemma loop_no_vendor:
  assumes "get_prop attr ''vendor'' = JNull \<or> get_prop attr ''vendor'' = JStr []"
    and "get_prop attr ''hash'' \<noteq> JUndefined"
    and "get_prop attr ''secret'' \<noteq> JUndefined"
    and "get_prop attr ''time'' \<noteq> JUndefined"
  shows "constructHeader_loop attr [''vendor'', ''hash'', ''secret'', ''time''] acc
           = Inr (acc @ time_part (get_prop attr ''time''))"
  by (simp only: loop_vendor_absent [OF assms(1)] loop_skip [OF _ assms(2)] loop_skip [OF _ assms(3)]
        loop_time [OF assms(4)] constructHeader_loop.simps(1) simp_thms)

lemma loop_vendor:
  assumes "get_prop attr ''vendor'' = JStr v" and "v \<noteq> []"
    and "get_prop attr ''hash'' \<noteq> JUndefined"
    and "get_prop attr ''secret'' \<noteq> JUndefined"
    and "get_prop attr ''time'' \<noteq> JUndefined"
  shows "constructHeader_loop attr [''vendor'', ''hash'', ''secret'', ''time''] acc
           = Inr (acc @ '',vendor='' @ v @ time_part (get_prop attr ''time''))"
  by (simp only: loop_vendor_present [OF assms(1,2)] loop_skip [OF _ assms(3)] loop_skip [OF _ assms(4)]
        loop_time [OF assms(5)] constructHeader_loop.simps(1) simp_thms append_assoc)

subsection \<open>The digest of the end-to-end scenario\<close>

text \<open>
  The digest is computed in stages: the bytes, the words, one lemma for each of the three
  blocks, the loop and the hexadecimal rendering.
\<close>

lemmas round_defs = C_at_def md5_u_def md5_f_def md5_D_def md5_t_def md5_K_def md5_L_def
  md5_r_def md5_q_def md5_p_def md5_n_def

lemma scenario_J: "md5_J scenario_input = scenario_input"
  by code_simp

lemma scenario_e: "md5_e scenario_input = scenario_words"
  by code_simp

lemma scenario_block_0:
  "md5_block scenario_words 0 (1732584193, 4023233417, 2562383102, 271733878)
     = (2277670431, 595367664, 2807951723, 2626637556)"
  apply (simp only: md5_block_def prod.case)
  apply (simp add: round_defs scenario_words_def Let_def cong: let_weak_cong)
  done

lemma scenario_block_16:
  "md5_block scenario_words 16 (2277670431, 595367664, 2807951723, 2626637556)
     = (1338997649, 1789449811, 305375997, 3007277430)"
  apply (simp only: md5_block_def prod.case)
  apply (simp add: round_defs scenario_words_def Let_def cong: let_weak_cong)
  done

lemma scenario_block_32:
  "md5_block scenario_words 32 (1338997649, 1789449811, 305375997, 3007277430)
     = (1802770724, 2514058810, 3115174561, 3279112508)"
  apply (simp only: md5_block_def prod.case)
  apply (simp add: round_defs scenario_words_def Let_def cong: let_weak_cong)
  done

lemma length_scenario_words: "length scenario_words = 48"
  by (simp add: scenario_words_def)

lemma scenario_loop:
  "md5_loop scenario_words 0 (1732584193, 4023233417, 2562383102, 271733878)
     = (1802770724, 2514058810, 3115174561, 3279112508)"
proof -
  have "md5_loop scenario_words 48 st = st" for st
    by (subst md5_loop.simps) (simp add: length_scenario_words)
  then have "md5_loop scenario_words 32 (1338997649, 1789449811, 305375997, 3007277430)
      = (1802770724, 2514058810, 3115174561, 3279112508)"
    by (subst md5_loop.simps) (simp add: length_scenario_words scenario_block_32)
  then have "md5_loop scenario_words 16 (2277670431, 595367664, 2807951723, 2626637556)
      = (1802770724, 2514058810, 3115174561, 3279112508)"
    by (subst md5_loop.simps) (simp add: length_scenario_words scenario_block_16)
  then show ?thesis
    by (subst md5_loop.simps) (simp add: length_scenario_words scenario_block_0)
qed

lemma scenario_hex:
  "toLowerCase (md5_B 1802770724 @ md5_B 2514058810 @ md5_B 3115174561 @ md5_B 3279112508)
     = ''2419746b3a7ed995a1caadb93c4973c3''"
  by code_simp

lemma scenario_digest: "md5 scenario_input = ''2419746b3a7ed995a1caadb93c4973c3''"
  by (simp add: md5_def scenario_J scenario_e scenario_loop scenario_hex)

section \<open>Message queue: the add functions\<close>

text \<open>
  C3. \<open>addZCLCommand\<close> is to substitute the defaults, take the next id, append a report of
  the command shape and return it without raising. The source's object literal reads an
  identifier \<open>offset\<close> that nothing declares: whatever the arguments, the call takes an id,
  throws a ReferenceError and appends nothing.
\<close>

theorem addZCLCommand_raises_ReferenceError:
  "addZCLCommand eui64 endpointId profileId clusterId isClusterSpecific commandId timestamp val s
     = (Inl ReferenceError, snd (generateId s))"
  by (simp add: addZCLCommand_def generateId_def scope_offset_def Let_def)

text \<open>
  C9. \<open>addZCLReport\<close>: a missing (falsy) endpointId becomes \<open>"0x0a"\<close> and a missing
  profileId becomes \<open>"0xf100"\<close>; a supplied (truthy) value is kept as it is; the report is
  appended to the queue and returned, with the id that \<open>generateId\<close> gives: the counter
  plus one, as long as the counter is below \<open>2 ^ 53\<close>.
\<close>

theorem addZCLReport_defaults:
  assumes "addZCLReport eui64 endpointId profileId clusterId attributeId dataTypeId timestamp val s
             = (obj, s')"
  shows "(\<not> truthy endpointId \<longrightarrow> get_prop obj ''endpointId'' = JStr ''0x0a'') \<and>
         (truthy endpointId \<longrightarrow> get_prop obj ''endpointId'' = endpointId) \<and>
         (\<not> truthy profileId \<longrightarrow> get_prop obj ''profileId'' = JStr ''0xf100'') \<and>
         (truthy profileId \<longrightarrow> get_prop obj ''profileId'' = profileId) \<and>
         get_prop obj ''id'' = JNum (fst (generateId s)) \<and>
         messages s' = messages s @ [obj] \<and>
         messageId s' = fst (generateId s) \<and>
         (messageId s < 9007199254740992 \<longrightarrow>
            get_prop obj ''id'' = JNum (messageId s + 1) \<and> messageId s' = messageId s + 1)"
  using assms
  by (auto simp: addZCLReport_def generateId_def increment_def push_def Let_def get_prop_def
        js_or_def)

theorem addZCLReport_defaults_witness:
  "\<exists>obj s'. addZCLReport (JNum 123) JNull (JStr ''b'') (JStr ''c'') (JStr ''d'') (JStr ''e'')
               (JNum 1000) (JStr ''hello'') initial = (obj, s') \<and>
     get_prop obj ''endpointId'' = JStr ''0x0a'' \<and>
     get_prop obj ''profileId'' = JStr ''b'' \<and>
     get_prop obj ''id'' = JNum 1 \<and>
     messages s' = [obj]"
proof -
  obtain obj s' where r:
    "addZCLReport (JNum 123) JNull (JStr ''b'') (JStr ''c'') (JStr ''d'') (JStr ''e'')
       (JNum 1000) (JStr ''hello'') initial = (obj, s')"
    by (cases "addZCLReport (JNum 123) JNull (JStr ''b'') (JStr ''c'') (JStr ''d'') (JStr ''e'')
       (JNum 1000) (JStr ''hello'') initial")
  from addZCLReport_defaults [OF r] have
    "get_prop obj ''endpointId'' = JStr ''0x0a'' \<and> get_prop obj ''profileId'' = JStr ''b'' \<and>
     get_prop obj ''id'' = JNum 1 \<and> messages s' = [obj]"
    by (simp add: initial_def generateId_def increment_def)
  with r show ?thesis by (intro exI[of _ obj] exI[of _ s']) simp
qed

section \<open>Message queue: serialization\<close>

text \<open>
  C2. Each report is rendered as its field values joined by tabs and ended by a line-feed,
  and the serialized queue is to be these lines one after the other with nothing between
  them. \<open>constructJOAPayload\<close> adds the array of lines to the header string, which joins
  the lines with commas: with two reports queued, the second line starts with a comma.
\<close>

theorem two_reports_joined_by_comma:
  "constructJOAPayload two_reports =
     Inr (''MuniRPCv2:0.0.0.0,vendor=debug'' @ char_eol @
          ''1'' @ char_tab @ ''0'' @ char_tab @ ''123'' @ char_tab @ ''a'' @ char_tab @ ''b'' @ char_tab @
          ''c'' @ char_tab @ ''d'' @ char_tab @ ''e'' @ char_tab @ ''1000'' @ char_tab @ ''hello'' @ char_eol @
          '','' @
          ''2'' @ char_tab @ ''0'' @ char_tab @ ''123'' @ char_tab @ ''0x0a'' @ char_tab @ ''0xf100'' @ char_tab @
          ''c'' @ char_tab @ ''d'' @ char_tab @ ''e'' @ char_tab @ ''1000'' @ char_tab @ ''hello'' @ char_eol)"
  by code_simp

section \<open>Message queue: ids and removal\<close>

text \<open>
  C7, as stated: in every sequence of operations each new id is above all earlier ones and
  none is used twice. The counter is a double: once it has reached \<open>2 ^ 53\<close> it stays
  there. After \<open>2 ^ 53 - 1\<close> ids, the next two reports both get the id \<open>2 ^ 53\<close>.
\<close>

theorem ids_strictly_increasing_counterexample:
  "fst (run [AddZCLReport (JNum 123) (JStr ''a'') (JStr ''b'') (JStr ''c'') (JStr ''d'') (JStr ''e'')
               (JNum 1000) (JStr ''hello''),
             AddZCLReport (JNum 123) (JStr ''a'') (JStr ''b'') (JStr ''c'') (JStr ''d'') (JStr ''e'')
               (JNum 1001) (JStr ''world'')] last_exact)
   = [[(''id'', JNum 9007199254740992), (''messageType'', JNum 0), (''eui64'', JNum 123),
       (''endpointId'', JStr ''a''), (''profileId'', JStr ''b''), (''clusterId'', JStr ''c''),
       (''attributeId'', JStr ''d''), (''dataTypeId'', JStr ''e''), (''timestamp'', JNum 1000),
       (''value'', JStr ''hello'')],
      [(''id'', JNum 9007199254740992), (''messageType'', JNum 0), (''eui64'', JNum 123),
       (''endpointId'', JStr ''a''), (''profileId'', JStr ''b''), (''clusterId'', JStr ''c''),
       (''attributeId'', JStr ''d''), (''dataTypeId'', JStr ''e''), (''timestamp'', JNum 1001),
       (''value'', JStr ''world'')]]"
  by code_simp

text \<open>
  C7, amended. One counter gives every id. In any sequence of adds, removals and clears
  that leaves the counter below \<open>2 ^ 53\<close>, the ids of the reports created are strictly
  increasing in the order of creation, hence never repeated; each lies above the counter's
  value before the sequence and at most at its value after it. \<open>removeMessage\<close> and
  \<open>clearMessages\<close> leave the counter as it is, whatever its value.
\<close>

theorem ids_strictly_increasing:
  assumes "run xs s = (created, s')" and "messageId s' < 9007199254740992"
  shows "sorted_wrt js_less (map (\<lambda>obj. get_prop obj ''id'') created) \<and>
         distinct (map (\<lambda>obj. get_prop obj ''id'') created) \<and>
         (\<forall>obj \<in> set created. id_in obj (messageId s) (messageId s')) \<and>
         messageId (snd (removeMessage idv s)) = messageId s \<and>
         messageId (clearMessages s) = messageId s"
proof -
  from run_ids [OF assms]
  have srt: "sorted_wrt js_less (map (\<lambda>obj. get_prop obj ''id'') created)"
    and rng: "\<forall>obj \<in> set created. id_in obj (messageId s) (messageId s')"
    by simp_all
  from srt have "distinct (map (\<lambda>obj. get_prop obj ''id'') created)"
    by (rule sorted_wrt_js_less_distinct)
  with srt rng show ?thesis
    by (simp add: messageId_removeMessage clearMessages_def)
qed

theorem ids_strictly_increasing_witness:
  "\<exists>created s'.
     run [AddTime (JNum 5), RemoveMessage (JNum 1), AddZCLCommand JNull JNull JNull JNull JNull JNull JNull JNull,
          ClearMessages, AddTime (JNum 6)] initial = (created, s') \<and>
     map (\<lambda>obj. get_prop obj ''id'') created = [JNum 1, JNum 3] \<and>
     sorted_wrt js_less (map (\<lambda>obj. get_prop obj ''id'') created) \<and>
     messageId s' = 3"
proof -
  obtain created s' where r:
    "run [AddTime (JNum 5), RemoveMessage (JNum 1), AddZCLCommand JNull JNull JNull JNull JNull JNull JNull JNull,
          ClearMessages, AddTime (JNum 6)] initial = (created, s')"
    by (cases "run [AddTime (JNum 5), RemoveMessage (JNum 1), AddZCLCommand JNull JNull JNull JNull JNull JNull JNull JNull,
          ClearMessages, AddTime (JNum 6)] initial")
  from r have "map (\<lambda>obj. get_prop obj ''id'') created = [JNum 1, JNum 3] \<and> messageId s' = 3"
    by (auto simp: addTime_def addZCLCommand_def scope_offset_def generateId_def increment_def
          push_def Let_def removeMessage_def clearMessages_def initial_def get_prop_def
          split: prod.splits)
  then have v: "map (\<lambda>obj. get_prop obj ''id'') created = [JNum 1, JNum 3]"
    and c: "messageId s' = 3" by simp_all
  from c have b: "messageId s' < 9007199254740992" by simp
  from ids_strictly_increasing [OF r b, of JNull]
  have "sorted_wrt js_less (map (\<lambda>obj. get_prop obj ''id'') created)" by simp
  with r v c show ?thesis by (intro exI[of _ created] exI[of _ s']) simp
qed

text \<open>
  C8. \<open>removeMessage(id)\<close> returns true exactly when some queued report has that id; it then
  removes the first such report and keeps the others in their order. Otherwise it returns
  false and the queue stays as it was. Either way the counter, and with it the id given by
  the next add, is unchanged.
\<close>

theorem removeMessage_first_match:
  "((\<exists>m \<in> set (messages s). get_prop m ''id'' = idv) \<longrightarrow>
      (\<exists>pre m post. messages s = pre @ m # post \<and> get_prop m ''id'' = idv \<and>
         (\<forall>x \<in> set pre. get_prop x ''id'' \<noteq> idv) \<and>
         removeMessage idv s = (True, s\<lparr>messages := pre @ post\<rparr>))) \<and>
   (\<not> (\<exists>m \<in> set (messages s). get_prop m ''id'' = idv) \<longrightarrow> removeMessage idv s = (False, s)) \<and>
   messageId (snd (removeMessage idv s)) = messageId s \<and>
   fst (generateId (snd (removeMessage idv s))) = fst (generateId s)"
proof -
  have found: "\<exists>pre m post. messages s = pre @ m # post \<and> get_prop m ''id'' = idv \<and>
         (\<forall>x \<in> set pre. get_prop x ''id'' \<noteq> idv) \<and>
         removeMessage idv s = (True, s\<lparr>messages := pre @ post\<rparr>)"
    if "\<exists>m \<in> set (messages s). get_prop m ''id'' = idv"
  proof -
    from that removeMessage_loop_found [of 0 "messages s" idv]
    obtain pre m post where h: "messages s = pre @ m # post" "get_prop m ''id'' = idv"
      "\<forall>x \<in> set pre. get_prop x ''id'' \<noteq> idv"
      "removeMessage_loop idv 0 (messages s) = (True, pre @ post)"
      by auto
    from h(4) have "removeMessage idv s = (True, s\<lparr>messages := pre @ post\<rparr>)"
      by (simp add: removeMessage_def)
    with h show ?thesis by blast
  qed
  have absent: "removeMessage idv s = (False, s)"
    if "\<not> (\<exists>m \<in> set (messages s). get_prop m ''id'' = idv)"
  proof -
    from that have "removeMessage_loop idv 0 (messages s) = (False, messages s)"
      by (intro removeMessage_loop_absent) simp
    then show ?thesis by (simp add: removeMessage_def)
  qed
  have "fst (generateId (snd (removeMessage idv s))) = fst (generateId s)"
    by (simp add: generateId_def Let_def messageId_removeMessage)
  with found absent show ?thesis
    by (simp only: messageId_removeMessage) blast
qed

theorem removeMessage_first_match_witness:
  "(\<exists>m \<in> set [time_report 1, time_report 2]. get_prop m ''id'' = JNum 2) \<and>
   fst (removeMessage (JNum 2) (initial\<lparr>messageId := 2, messages := [time_report 1, time_report 2]\<rparr>)) \<and>
   \<not> (\<exists>m \<in> set [time_report 1, time_report 2]. get_prop m ''id'' = JNum 7) \<and>
   removeMessage (JNum 7) (initial\<lparr>messageId := 2, messages := [time_report 1, time_report 2]\<rparr>)
     = (False, initial\<lparr>messageId := 2, messages := [time_report 1, time_report 2]\<rparr>)"
proof -
  have a: "\<exists>m \<in> set [time_report 1, time_report 2]. get_prop m ''id'' = JNum 2"
    by (simp add: time_report_def get_prop_def)
  have b: "\<not> (\<exists>m \<in> set [time_report 1, time_report 2]. get_prop m ''id'' = JNum 7)"
    by (simp add: time_report_def get_prop_def)
  from a b
    removeMessage_first_match
      [of "initial\<lparr>messageId := 2, messages := [time_report 1, time_report 2]\<rparr>" "JNum 2"]
    removeMessage_first_match
      [of "initial\<lparr>messageId := 2, messages := [time_report 1, time_report 2]\<rparr>" "JNum 7"]
  show ?thesis by auto
qed

section \<open>Header builder: mandatory fields and the schema\<close>

text \<open>
  C4. When the gatewayIdentifier is \<open>null\<close> or the empty string, header construction and
  composition fail with \<open>no_gatewayidentifier_set\<close>, whatever the attributes and the queue
  hold; no payload comes out.
\<close>

theorem missing_gatewayIdentifier_fails:
  assumes "gatewayIdentifier (JOA_header s) = JNull \<or> gatewayIdentifier (JOA_header s) = JStr []"
  shows "constructHeader s = Inl no_gatewayidentifier_set \<and>
         constructJOAPayload s = Inl no_gatewayidentifier_set"
  using assms by (auto simp: constructHeader_def constructJOAPayload_def Let_def)

theorem missing_gatewayIdentifier_fails_witness:
  "gatewayIdentifier (JOA_header (headers_literal (test_header (JStr ''debug'') (JBool False) (JBool False) JNull (JStr [])) initial))
     = JStr [] \<and>
   constructJOAPayload (headers_literal (test_header (JStr ''debug'') (JBool False) (JBool False) JNull (JStr [])) initial)
     = Inl no_gatewayidentifier_set"
  using missing_gatewayIdentifier_fails
    [of "headers_literal (test_header (JStr ''debug'') (JBool False) (JBool False) JNull (JStr [])) initial"]
  by (simp add: JOA_header_headers_literal test_header_def)

text \<open>
  C5, as stated: for every non-empty gatewayIdentifier, a \<open>null\<close> or empty vendor makes
  composition fail with \<open>no_vendor_attribute_set\<close>. The check looks for \<open>vendor=\<close> in the
  rendered line, and a gatewayIdentifier that holds this text passes it.
\<close>

theorem vendor_mandatory_counterexample:
  "constructJOAPayload
     (headers_literal (test_header JNull (JBool False) (JBool False) JNull (JStr ''vendor='')) initial)
   = Inr (''MuniRPCv2:vendor='' @ char_eol)"
  by code_simp

text \<open>
  The check is passed as well by an attribute that is not the vendor: the loop renders
  every key of the default header object, and a key added to it in place whose name ends
  in \<open>vendor\<close> puts \<open>vendor=\<close> into the line.
\<close>

lemma vendor_check_passed_by_added_key:
  "get_prop (attribute (JOA_header xvendor_in_place)) ''vendor'' = JNull \<and>
   gatewayIdentifier (JOA_header xvendor_in_place) = JStr ''0.0.0.0'' \<and>
   constructJOAPayload xvendor_in_place = Inr (''MuniRPCv2:0.0.0.0,xvendor=1'' @ char_eol)"
  by code_simp

text \<open>
  C5, amended. Let the default header object have its original keys (vendor, hash, secret,
  time), and take a header whose hash, secret and time attributes are present and whose
  gatewayIdentifier is a non-empty string. If the vendor is \<open>null\<close> or empty and the
  gatewayIdentifier does not contain \<open>vendor=\<close>, header construction and composition fail
  with \<open>no_vendor_attribute_set\<close>. If the vendor is a non-empty string, header construction
  succeeds and the line is the protocol version, the gatewayIdentifier, \<open>,vendor=\<close> and the
  vendor, then \<open>,time\<close> when the time attribute is truthy, then a line-feed.
\<close>

theorem vendor_mandatory:
  assumes "gatewayIdentifier (JOA_header s) = JStr g" and "g \<noteq> []"
    and "get_prop (attribute (JOA_header s)) ''hash'' \<noteq> JUndefined"
    and "get_prop (attribute (JOA_header s)) ''secret'' \<noteq> JUndefined"
    and "get_prop (attribute (JOA_header s)) ''time'' \<noteq> JUndefined"
    and keys: "Object_keys (attribute (header s)) = [''vendor'', ''hash'', ''secret'', ''time'']"
  shows "((get_prop (attribute (JOA_header s)) ''vendor'' = JNull \<or>
           get_prop (attribute (JOA_header s)) ''vendor'' = JStr []) \<and>
          indexOf g ''vendor='' = - 1 \<longrightarrow>
            constructHeader s = Inl no_vendor_attribute_set \<and>
            constructJOAPayload s = Inl no_vendor_attribute_set) \<and>
         (\<forall>v. get_prop (attribute (JOA_header s)) ''vendor'' = JStr v \<and> v \<noteq> [] \<longrightarrow>
            constructHeader s =
              Inr (protocolVersion @ g @ '',vendor='' @ v
                   @ time_part (get_prop (attribute (JOA_header s)) ''time'') @ char_eol))"
proof (intro conjI impI allI)
  let ?attr = "attribute (JOA_header s)"
  assume a: "(get_prop ?attr ''vendor'' = JNull \<or> get_prop ?attr ''vendor'' = JStr []) \<and>
             indexOf g ''vendor='' = - 1"
  then have absent: "get_prop ?attr ''vendor'' = JNull \<or> get_prop ?attr ''vendor'' = JStr []"
    and nosub: "\<not> sublist ''vendor='' g"
    by (simp_all add: indexOf_neg)
  have l: "constructHeader_loop ?attr (Object_keys (attribute (header s))) (protocolVersion @ g)
             = Inr ((protocolVersion @ g) @ time_part (get_prop ?attr ''time''))"
    unfolding keys using absent assms(3-5) by (rule loop_no_vendor)
  from nosub
  have "indexOf ((protocolVersion @ g @ time_part (get_prop ?attr ''time'')) @ char_eol) ''vendor='' = - 1"
    unfolding indexOf_neg by (rule header_no_vendor)
  then show h: "constructHeader s = Inl no_vendor_attribute_set"
    using assms(1,2) l by (simp add: constructHeader_def Let_def)
  then show "constructJOAPayload s = Inl no_vendor_attribute_set"
    by (simp add: constructJOAPayload_def)
next
  fix v
  let ?attr = "attribute (JOA_header s)"
  let ?h = "protocolVersion @ g @ '',vendor='' @ v @ time_part (get_prop ?attr ''time'') @ char_eol"
  assume "get_prop ?attr ''vendor'' = JStr v \<and> v \<noteq> []"
  then have v: "get_prop ?attr ''vendor'' = JStr v" "v \<noteq> []" by simp_all
  have l: "constructHeader_loop ?attr (Object_keys (attribute (header s))) (protocolVersion @ g)
             = Inr ((protocolVersion @ g) @ '',vendor='' @ v @ time_part (get_prop ?attr ''time''))"
    unfolding keys using v assms(3-5) by (rule loop_vendor)
  have "sublist ''vendor='' ?h"
    unfolding sublist_def
    by (rule exI[of _ "protocolVersion @ g @ '',''"],
        rule exI[of _ "v @ time_part (get_prop ?attr ''time'') @ char_eol"]) simp
  then have "indexOf ?h ''vendor='' \<noteq> - 1" by (simp add: indexOf_neg)
  then show "constructHeader s = Inr ?h"
    using assms(1,2) l by (simp add: constructHeader_def Let_def)
qed

theorem vendor_mandatory_witness:
  "constructJOAPayload
     (headers_literal (test_header JNull (JBool True) (JBool False) JNull (JStr ''0.0.0.0'')) initial)
     = Inl no_vendor_attribute_set \<and>
   constructHeader
     (headers_literal (test_header (JStr ''debug'') (JBool True) (JBool False) JNull (JStr ''0.0.0.0'')) initial)
     = Inr (''MuniRPCv2:0.0.0.0,vendor=debug,time'' @ char_eol)"
proof -
  have i: "indexOf ''0.0.0.0'' ''vendor='' = - 1" by code_simp
  have a: "constructJOAPayload
     (headers_literal (test_header JNull (JBool True) (JBool False) JNull (JStr ''0.0.0.0'')) initial)
     = Inl no_vendor_attribute_set"
    using i vendor_mandatory
      [of "headers_literal (test_header JNull (JBool True) (JBool False) JNull (JStr ''0.0.0.0'')) initial"
          "''0.0.0.0''"]
    by (simp add: JOA_header_headers_literal header_headers_literal header_initial
          Object_keys_default_header test_header_def get_prop_def)
  have b: "constructHeader
     (headers_literal (test_header (JStr ''debug'') (JBool True) (JBool False) JNull (JStr ''0.0.0.0'')) initial)
     = Inr (''MuniRPCv2:0.0.0.0,vendor=debug,time'' @ char_eol)"
    using vendor_mandatory
      [of "headers_literal (test_header (JStr ''debug'') (JBool True) (JBool False) JNull (JStr ''0.0.0.0'')) initial"
          "''0.0.0.0''"]
    by (simp add: JOA_header_headers_literal header_headers_literal header_initial
          Object_keys_default_header test_header_def get_prop_def protocolVersion_def time_part_def)
  from a b show ?thesis by simp
qed

text \<open>
  C10, as stated: the header line depends only on the gatewayIdentifier and on the values
  of vendor, hash, secret and time, and no other key of the configuration is rendered. The
  loop takes its keys from the object that \<open>header\<close> refers to, and until \<open>headers\<close> is
  called this is the object the caller configures through \<open>JOA.header\<close>: a key added to it
  in place is rendered. The two states below agree on the gatewayIdentifier and on the
  four attributes and give different lines.
\<close>

theorem constructHeader_schema_keys_only_counterexample:
  "gatewayIdentifier (JOA_header extra_in_place) = gatewayIdentifier (JOA_header configured_in_place) \<and>
   get_prop (attribute (JOA_header extra_in_place)) ''vendor''
     = get_prop (attribute (JOA_header configured_in_place)) ''vendor'' \<and>
   get_prop (attribute (JOA_header extra_in_place)) ''hash''
     = get_prop (attribute (JOA_header configured_in_place)) ''hash'' \<and>
   get_prop (attribute (JOA_header extra_in_place)) ''secret''
     = get_prop (attribute (JOA_header configured_in_place)) ''secret'' \<and>
   get_prop (attribute (JOA_header extra_in_place)) ''time''
     = get_prop (attribute (JOA_header configured_in_place)) ''time'' \<and>
   constructHeader configured_in_place = Inr (''MuniRPCv2:0.0.0.0,vendor=debug'' @ char_eol) \<and>
   constructHeader extra_in_place = Inr (''MuniRPCv2:0.0.0.0,vendor=debug,extra=x'' @ char_eol)"
  by code_simp

text \<open>
  C10, amended. The header line depends only on the keys of the default header's attribute
  object, on the gatewayIdentifier and on the values of the configuration at these keys:
  two states that agree on the three give the same result, whatever else the configuration
  holds and whatever the rest of the state is. On load the keys are vendor, hash, secret
  and time in this order, and installing a new object with \<open>headers\<close> leaves the default
  object as it is, so an additional key of such an object is not rendered.
\<close>

theorem constructHeader_schema_keys_only:
  assumes "Object_keys (attribute (header s1)) = Object_keys (attribute (header s2))"
    and "gatewayIdentifier (JOA_header s1) = gatewayIdentifier (JOA_header s2)"
    and "\<forall>k \<in> set (Object_keys (attribute (header s1))).
           get_prop (attribute (JOA_header s1)) k = get_prop (attribute (JOA_header s2)) k"
  shows "constructHeader s1 = constructHeader s2 \<and>
         Object_keys (attribute (header initial)) = [''vendor'', ''hash'', ''secret'', ''time''] \<and>
         header (headers_literal obj s) = header s"
proof -
  have "constructHeader_loop (attribute (JOA_header s1)) (Object_keys (attribute (header s1))) acc
      = constructHeader_loop (attribute (JOA_header s2)) (Object_keys (attribute (header s1))) acc"
    for acc
    using assms(3) by (rule constructHeader_loop_cong)
  then have "constructHeader s1 = constructHeader s2"
    unfolding constructHeader_def assms(1) [symmetric] using assms(2)
    by (simp add: Let_def cong: sum.case_cong bool.case_cong)
  then show ?thesis
    by (simp add: header_initial Object_keys_default_header header_headers_literal)
qed

theorem constructHeader_schema_keys_only_witness:
  "constructHeader
     (headers_literal (debug_header\<lparr>attribute := (''extra'', JStr ''x'') # attribute debug_header\<rparr>)
        initial)
     = constructHeader (headers_literal debug_header (initial\<lparr>messageId := 7\<rparr>))"
proof -
  let ?s1 = "headers_literal (debug_header\<lparr>attribute := (''extra'', JStr ''x'') # attribute debug_header\<rparr>)
               initial"
  let ?s2 = "headers_literal debug_header (initial\<lparr>messageId := 7\<rparr>)"
  have h1: "header ?s1 = default_header" and h2: "header ?s2 = default_header"
    by (simp_all add: headers_literal_def headers_def header_def header_ref_def initial_def Let_def)
  have k: "Object_keys (attribute (header ?s1)) = Object_keys (attribute (header ?s2))"
    by (simp only: h1 h2)
  have g: "gatewayIdentifier (JOA_header ?s1) = gatewayIdentifier (JOA_header ?s2)"
    by (simp add: JOA_header_headers_literal)
  have v: "\<forall>k \<in> set (Object_keys (attribute (header ?s1))).
             get_prop (attribute (JOA_header ?s1)) k = get_prop (attribute (JOA_header ?s2)) k"
    by (simp add: h1 Object_keys_default_header JOA_header_headers_literal get_prop_def)
  from constructHeader_schema_keys_only [OF k g v] show ?thesis by simp
qed

section \<open>Payload composer: the hash attribute\<close>

text \<open>
  C6. Let header construction succeed with the line \<open>h\<close> and let the hash attribute be
  truthy. With a \<open>null\<close> or empty secret, composition fails with \<open>no_secret_set\<close>. With a
  non-empty string as secret, composition succeeds: the result is \<open>h\<close> and the serialized
  queue with \<open>,hash=\<close> and the digest put in just before the first line-feed of \<open>h\<close>, and
  the digest is 32 lowercase hexadecimal digits.
\<close>

theorem hash_requires_secret:
  assumes "constructHeader s = Inr h"
    and "truthy (get_prop (attribute (JOA_header s)) ''hash'')"
  shows "((get_prop (attribute (JOA_header s)) ''secret'' = JNull \<or>
           get_prop (attribute (JOA_header s)) ''secret'' = JStr []) \<longrightarrow>
            constructJOAPayload s = Inl no_secret_set) \<and>
         (\<forall>sec. get_prop (attribute (JOA_header s)) ''secret'' = JStr sec \<and> sec \<noteq> [] \<longrightarrow>
            (let body = Array_toString (constructMessages s);
                 pre = takeWhile (\<lambda>c. [c] \<noteq> char_eol) h;
                 post = drop (Suc (length pre)) h;
                 d = md5 (sec @ h @ body)
             in h = pre @ char_eol @ post \<and>
                length d = 32 \<and> set d \<subseteq> hex_digits \<and>
                constructJOAPayload s = Inr (pre @ '',hash='' @ d @ char_eol @ post @ body)))"
proof (intro conjI impI allI)
  assume "get_prop (attribute (JOA_header s)) ''secret'' = JNull \<or>
          get_prop (attribute (JOA_header s)) ''secret'' = JStr []"
  then show "constructJOAPayload s = Inl no_secret_set"
    using assms by (auto simp: constructJOAPayload_def Let_def)
next
  fix sec
  assume "get_prop (attribute (JOA_header s)) ''secret'' = JStr sec \<and> sec \<noteq> []"
  then have sec: "get_prop (attribute (JOA_header s)) ''secret'' = JStr sec" "sec \<noteq> []"
    by simp_all
  define e where "e = char_of (10 :: nat)"
  have eol: "char_eol = [e]" by (simp add: char_eol_def e_def)
  define body where "body = Array_toString (constructMessages s)"
  define pre where "pre = takeWhile (\<lambda>c. [c] \<noteq> char_eol) h"
  define post where "post = drop (Suc (length pre)) h"
  from constructHeader_eol [OF assms(1)] have "e \<in> set h" by (auto simp: eol)
  have pre': "pre = takeWhile (\<lambda>c. c \<noteq> e) h" by (simp add: pre_def eol)
  have "dropWhile (\<lambda>c. c \<noteq> e) h \<noteq> []" using \<open>e \<in> set h\<close> by simp
  then have "hd (dropWhile (\<lambda>c. c \<noteq> e) h) = e" using hd_dropWhile [of "\<lambda>c. c \<noteq> e" h] by simp
  with \<open>dropWhile (\<lambda>c. c \<noteq> e) h \<noteq> []\<close>
  have dw: "dropWhile (\<lambda>c. c \<noteq> e) h = e # tl (dropWhile (\<lambda>c. c \<noteq> e) h)"
    by (metis list.collapse)
  have "h = pre @ dropWhile (\<lambda>c. c \<noteq> e) h" by (simp add: pre')
  with dw have h1: "h = pre @ e # tl (dropWhile (\<lambda>c. c \<noteq> e) h)" by simp
  then have "post = tl (dropWhile (\<lambda>c. c \<noteq> e) h)"
    unfolding post_def by (metis append_eq_conv_conj drop_Suc tl_drop list.sel(3))
  with h1 have split: "h = pre @ [e] @ post" by simp
  have notin: "e \<notin> set pre" unfolding pre' by (auto dest: set_takeWhileD)
  have payload: "h @ body = pre @ [e] @ (post @ body)" using split by simp
  have idx: "indexOf (h @ body) char_eol = int (length pre)"
    unfolding payload eol using notin by (rule indexOf_eol_append)
  have t: "take (length pre) (h @ body) = pre" unfolding payload by simp
  have d: "drop (length pre) (h @ body) = [e] @ post @ body" unfolding payload by simp
  have len: "length pre \<le> length (h @ body)" unfolding payload by simp
  have hp: "hashJOAPayload s (h @ body)
          = pre @ '',hash='' @ md5 (sec @ h @ body) @ char_eol @ post @ body"
    unfolding hashJOAPayload_def Let_def idx slice_take [OF len] slice_from_drop [OF len] t d sec
    by (simp add: eol)
  have "constructJOAPayload s = Inr (hashJOAPayload s (h @ body))"
    using assms sec by (simp add: constructJOAPayload_def Let_def body_def)
  with hp split md5_shape [of "sec @ h @ body"]
  show "let body = Array_toString (constructMessages s);
            pre = takeWhile (\<lambda>c. [c] \<noteq> char_eol) h;
            post = drop (Suc (length pre)) h;
            d = md5 (sec @ h @ body)
        in h = pre @ char_eol @ post \<and>
           length d = 32 \<and> set d \<subseteq> hex_digits \<and>
           constructJOAPayload s = Inr (pre @ '',hash='' @ d @ char_eol @ post @ body)"
    unfolding Let_def body_def [symmetric] pre_def [symmetric] post_def [symmetric]
    by (simp add: eol)
qed

theorem hash_requires_secret_witness:
  "constructHeader hashed_debug = Inr (''MuniRPCv2:0.0.0.0,vendor=debug'' @ char_eol) \<and>
   truthy (get_prop (attribute (JOA_header hashed_debug)) ''hash'') \<and>
   (\<exists>d. length d = 32 \<and> set d \<subseteq> hex_digits \<and>
        constructJOAPayload hashed_debug
          = Inr (''MuniRPCv2:0.0.0.0,vendor=debug,hash='' @ d @ char_eol))"
proof -
  have ch: "constructHeader hashed_debug = Inr (''MuniRPCv2:0.0.0.0,vendor=debug'' @ char_eol)"
    by code_simp
  have th: "truthy (get_prop (attribute (JOA_header hashed_debug)) ''hash'')"
    by code_simp
  have sec: "get_prop (attribute (JOA_header hashed_debug)) ''secret'' = JStr ''simplesecret''"
    by code_simp
  have body: "Array_toString (constructMessages hashed_debug) = []"
    by code_simp
  from hash_requires_secret [OF ch th] sec
  have "length (md5 (''simplesecret'' @ ''MuniRPCv2:0.0.0.0,vendor=debug'' @ char_eol)) = 32 \<and>
        set (md5 (''simplesecret'' @ ''MuniRPCv2:0.0.0.0,vendor=debug'' @ char_eol)) \<subseteq> hex_digits \<and>
        constructJOAPayload hashed_debug
          = Inr (''MuniRPCv2:0.0.0.0,vendor=debug,hash=''
                 @ md5 (''simplesecret'' @ ''MuniRPCv2:0.0.0.0,vendor=debug'' @ char_eol) @ char_eol)"
    by (simp add: body Let_def char_eol_eq)
  with ch th show ?thesis by blast
qed

section \<open>End-to-end scenario\<close>

text \<open>
  C1. After the earlier tests have used the ids 1 to 3, the queue is cleared, one ZCL report
  is added with eui64 \<open>f104:00ff:0000:0001\<close>, no endpointId and profileId, clusterId
  \<open>0x0402\<close>, attributeId \<open>0x0000\<close>, dataTypeId \<open>0x20\<close>, timestamp 1474552384381 and value
  \<open>1\<close>, and the header is set to gatewayIdentifier \<open>10.32.16.1\<close>, vendor \<open>androidnode\<close>,
  time and hash on and the secret of the test. Composition succeeds and returns the header
  line with the digest \<open>2419746b3a7ed995a1caadb93c4973c3\<close> followed by the line of the
  report, whose id is 4.
\<close>

theorem end_to_end_scenario:
  "messageId before_scenario = 3 \<and>
   messages (clearMessages before_scenario) = [] \<and>
   constructJOAPayload scenario =
     Inr (''MuniRPCv2:10.32.16.1,vendor=androidnode,time,hash=2419746b3a7ed995a1caadb93c4973c3''
          @ char_eol @ ''4'' @ char_tab @ ''0'' @ char_tab @ ''f104:00ff:0000:0001'' @ char_tab @ ''0x0a'' @ char_tab @ ''0xf100'' @ char_tab @ ''0x0402'' @ char_tab @ ''0x0000'' @ char_tab @ ''0x20'' @ char_tab @ ''1474552384381'' @ char_tab @ ''1'' @ char_eol)"
proof -
  let ?payload = "scenario_header @ char_eol @ scenario_line"
  have b: "messageId before_scenario = 3 \<and> messages (clearMessages before_scenario) = []"
    by code_simp
  have h: "constructHeader scenario = Inr (scenario_header @ char_eol)"
    by code_simp
  have m: "Array_toString (constructMessages scenario) = scenario_line"
    by code_simp
  have hash: "get_prop (attribute (JOA_header scenario)) ''hash'' = JBool True"
    by code_simp
  have secret: "get_prop (attribute (JOA_header scenario)) ''secret'' = JStr ''waiga6ieGo4eefo2thaQuash4ahc4aid''"
    by code_simp
  have i: "slice ?payload 0 (indexOf ?payload char_eol) = scenario_header"
    by code_simp
  have j: "slice_from ?payload (indexOf ?payload char_eol) = char_eol @ scenario_line"
    by code_simp
  have "constructJOAPayload scenario = Inr (hashJOAPayload scenario ?payload)"
    by (simp add: constructJOAPayload_def h m hash secret)
  also have "hashJOAPayload scenario ?payload
      = scenario_header @ '',hash='' @ md5 scenario_input @ char_eol @ scenario_line"
    by (simp add: hashJOAPayload_def Let_def i j secret scenario_input_def)
  finally show ?thesis
    using b by (simp add: scenario_digest scenario_header_def scenario_line_def)
qed

end
